theory Spec2Isabelle
  imports Complex_Main
begin

section \<open>Python numbers\<close>

text \<open>
  The template computes with Python floats: \<^verbatim>\<open>flt\<close> turns every numeric field it reads
  into a float, and \<^verbatim>\<open>*\<close>, \<^verbatim>\<open>/\<close>, \<^verbatim>\<open>+=\<close> and the comparisons then work on floats.
  A Python float is an IEEE 754 binary64 number: a finite value (a rational with a
  53-bit significand), an infinity, or NaN. The two zeros are one value here: the code
  adds, multiplies, divides by 100 and compares, and in none of these does the sign of
  a zero change the result.
\<close>

datatype pyfloat = Finite rat | PosInf | NegInf | NaN

text \<open>The position of the leading bit of a positive integer: \<open>2 ^ ilog2 n \<le> n\<close>.\<close>

function ilog2 :: "int \<Rightarrow> int" where
  "ilog2 n = (if n \<le> 1 then 0 else 1 + ilog2 (n div 2))"
  by pat_completeness auto
termination
  by (relation "measure nat") auto

definition pow2 :: "int \<Rightarrow> rat" where
  "pow2 e = (if 0 \<le> e then 2 ^ nat e else 1 / 2 ^ nat (- e))"

text \<open>For a positive rational \<open>x\<close>, the exponent \<open>e\<close> with \<open>2 ^ e \<le> x < 2 ^ (e + 1)\<close>.\<close>

definition binary_exponent :: "rat \<Rightarrow> int" where
  "binary_exponent x =
     (if 1 \<le> x then ilog2 \<lfloor>x\<rfloor>
      else (let b = ilog2 \<lfloor>1 / x\<rfloor> in if 1 / x = pow2 b then - b else - b - 1))"

text \<open>Rounding to the nearest integer, a tie going to the even one.\<close>

definition round_half_even :: "rat \<Rightarrow> int" where
  "round_half_even x =
     (let f = \<lfloor>x\<rfloor>; r = x - of_int f
      in if r < 1 / 2 then f else if 1 / 2 < r then f + 1 else if even f then f else f + 1)"

definition overflow :: "rat \<Rightarrow> pyfloat" where
  "overflow x = (if 0 < x then PosInf else NegInf)"

text \<open>
  The binary64 value of an exact result, as every float operation of Python produces
  it: round to nearest, ties to even, with a significand of 53 bits, exponents from
  -1022 to 1023, gradual underflow below (a spacing of \<open>2 ^ -1074\<close>), and an infinity
  when the rounded value reaches \<open>2 ^ 1024\<close>.
\<close>

definition round_double :: "rat \<Rightarrow> pyfloat" where
  "round_double x =
     (if x = 0 then Finite 0
      else (let e = binary_exponent \<bar>x\<bar> in
        if 1024 \<le> e then overflow x
        else (let q = max e (- 1022) - 52;
                  m = round_half_even (x / pow2 q)
              in if 1024 \<le> ilog2 \<bar>m\<bar> + q then overflow x
                 else Finite (of_int m * pow2 q))))"

text \<open>Python's \<^verbatim>\<open>x + y\<close> on floats.\<close>

fun fadd :: "pyfloat \<Rightarrow> pyfloat \<Rightarrow> pyfloat" where
  "fadd NaN y = NaN"
| "fadd x NaN = NaN"
| "fadd PosInf NegInf = NaN"
| "fadd NegInf PosInf = NaN"
| "fadd PosInf y = PosInf"
| "fadd x PosInf = PosInf"
| "fadd NegInf y = NegInf"
| "fadd x NegInf = NegInf"
| "fadd (Finite x) (Finite y) = round_double (x + y)"

text \<open>Python's \<^verbatim>\<open>x * y\<close> on floats; an infinity times zero is NaN.\<close>

fun fmul :: "pyfloat \<Rightarrow> pyfloat \<Rightarrow> pyfloat" where
  "fmul NaN y = NaN"
| "fmul x NaN = NaN"
| "fmul (Finite x) (Finite y) = round_double (x * y)"
| "fmul (Finite x) y =
     (if x = 0 then NaN else if (0 < x) = (y = PosInf) then PosInf else NegInf)"
| "fmul x (Finite y) =
     (if y = 0 then NaN else if (0 < y) = (x = PosInf) then PosInf else NegInf)"
| "fmul x y = (if x = y then PosInf else NegInf)"

text \<open>Python's \<^verbatim>\<open>x / 100\<close> on a float, the only division of the template.\<close>

fun div_100 :: "pyfloat \<Rightarrow> pyfloat" where
  "div_100 (Finite x) = round_double (x / 100)"
| "div_100 x = x"

text \<open>Python's \<^verbatim>\<open>x <= y\<close>, \<^verbatim>\<open>x < y\<close> and \<^verbatim>\<open>x == y\<close>: every comparison with NaN is false.\<close>

fun float_le :: "pyfloat \<Rightarrow> pyfloat \<Rightarrow> bool" where
  "float_le NaN y = False"
| "float_le x NaN = False"
| "float_le NegInf y = True"
| "float_le x PosInf = True"
| "float_le (Finite x) (Finite y) = (x \<le> y)"
| "float_le x y = False"

fun float_lt :: "pyfloat \<Rightarrow> pyfloat \<Rightarrow> bool" where
  "float_lt NaN y = False"
| "float_lt x NaN = False"
| "float_lt (Finite x) (Finite y) = (x < y)"
| "float_lt PosInf y = False"
| "float_lt x NegInf = False"
| "float_lt NegInf y = True"
| "float_lt x PosInf = True"

definition float_eq :: "pyfloat \<Rightarrow> pyfloat \<Rightarrow> bool" where
  "float_eq x y = (x \<noteq> NaN \<and> x = y)"

text \<open>
  A numeric field holds a Python int or a Python float. (A field holding \<^verbatim>\<open>None\<close> or a
  string, which \<^verbatim>\<open>flt\<close> turns into 0.0 or parses, is outside the model.)
\<close>

datatype number = PyInt int | PyFloat pyfloat

text \<open>
  \<^verbatim>\<open>frappe.utils.flt(s)\<close> is imported by the template and defined by the framework: it is
  \<^verbatim>\<open>float(s)\<close>, and 0.0 when \<^verbatim>\<open>float\<close> raises; the template never passes a precision.
  \<^verbatim>\<open>float\<close> of a float is that float, \<^verbatim>\<open>float\<close> of an int is the nearest float, and
  it raises OverflowError for an int beyond the range of floats.
\<close>

fun flt :: "number \<Rightarrow> pyfloat" where
  "flt (PyFloat x) = x"
| "flt (PyInt n) =
     (case round_double (of_int n) of
        Finite y \<Rightarrow> Finite y
      | PosInf \<Rightarrow> Finite 0
      | NegInf \<Rightarrow> Finite 0
      | NaN \<Rightarrow> Finite 0)"

text \<open>
  Python compares an int with a float by their exact values, and a number is true when
  it is not zero. \<open>exact_float\<close> is the exact value of a number; it is not rounded.
\<close>

fun exact_float :: "number \<Rightarrow> pyfloat" where
  "exact_float (PyInt n) = Finite (of_int n)"
| "exact_float (PyFloat x) = x"

definition num_lt :: "number \<Rightarrow> number \<Rightarrow> bool" where
  "num_lt a b = float_lt (exact_float a) (exact_float b)"

definition num_truthy :: "number \<Rightarrow> bool" where
  "num_truthy a = (exact_float a \<noteq> Finite 0)"

section \<open>Data model of the ERPNext document controller template\<close>

text \<open>
  The template \<^verbatim>\<open>references/erpnext-master/26_TEMPLATES/doctype-controller.py\<close> is a
  class \<^verbatim>\<open>CustomDocType(Document)\<close> whose methods read and write the fields of
  \<^verbatim>\<open>self\<close>. A document is a record of the fields the methods touch; methods that
  assign to fields return the updated record. Fields that the code reads (qty, rate,
  tax_amount) hold an int or a float; fields that the code only computes (amount and the
  totals) hold the float computed, the int 0 that the totals start from being the float
  0.0, which it equals in every operation applied to it.
\<close>

text \<open>A child row of \<^verbatim>\<open>self.items\<close>.\<close>

record item =
  item_code :: string
  qty :: number
  rate :: number
  amount :: pyfloat
  warehouse :: "string option"

text \<open>A child row of \<^verbatim>\<open>self.taxes\<close>.\<close>

record tax =
  charge_type :: string
  rate :: number
  tax_amount :: number
  account_head :: string

text \<open>
  The fields of \<^verbatim>\<open>self\<close>. A string or date field that is unset is \<open>None\<close>; dates
  are kept as the framework stores them (strings) and read through \<^verbatim>\<open>getdate\<close>.
\<close>

record document =
  customer :: "string option"
  items :: "item list"
  taxes :: "tax list"
  from_date :: "string option"
  to_date :: "string option"
  due_date :: "string option"
  posting_date :: "string option"
  total_qty :: pyfloat
  total_amount :: pyfloat
  total_tax :: pyfloat
  grand_total :: pyfloat
  debit_account :: string
  credit_account :: string

section \<open>Calculation methods\<close>

text \<open>
  \<^verbatim>\<open>
  def calculate_taxes(self):
      self.total_tax = 0
      for tax in self.taxes:
          if tax.charge_type == "On Net Total":
              tax.tax_amount = flt(self.total_amount) * flt(tax.rate) / 100
          elif tax.charge_type == "Actual":
              pass  # tax_amount is already set
          self.total_tax += flt(tax.tax_amount)
  \<close>
  The body of the loop on one row, then the loop with \<^verbatim>\<open>self.total_tax\<close> as the
  accumulator; \<^verbatim>\<open>self.total_amount\<close> is only read.
\<close>

definition calculate_taxes_row :: "pyfloat \<Rightarrow> tax \<Rightarrow> tax" where
  "calculate_taxes_row net t =
     (if charge_type t = ''On Net Total''
      then t\<lparr>tax_amount := PyFloat (div_100 (fmul (flt (PyFloat net)) (flt (tax.rate t))))\<rparr>
      else if charge_type t = ''Actual'' then t
      else t)"

fun calculate_taxes_loop :: "pyfloat \<Rightarrow> tax list \<Rightarrow> pyfloat \<Rightarrow> tax list \<times> pyfloat" where
  "calculate_taxes_loop net [] acc = ([], acc)"
| "calculate_taxes_loop net (t # ts) acc =
     (let t' = calculate_taxes_row net t;
          (rest, acc') = calculate_taxes_loop net ts (fadd acc (flt (tax_amount t')))
      in (t' # rest, acc'))"

definition calculate_taxes :: "document \<Rightarrow> document" where
  "calculate_taxes d =
     (let (ts, tt) = calculate_taxes_loop (total_amount d) (taxes d) (Finite 0)
      in d\<lparr>taxes := ts, total_tax := tt\<rparr>)"

text \<open>
  \<^verbatim>\<open>
  def calculate_totals(self):
      self.total_qty = 0
      self.total_amount = 0
      for item in self.items:
          item.amount = flt(item.qty) * flt(item.rate)
          self.total_qty += flt(item.qty)
          self.total_amount += item.amount
      self.calculate_taxes()
      self.grand_total = self.total_amount + self.total_tax
  \<close>
\<close>

definition calculate_totals_row :: "item \<Rightarrow> item" where
  "calculate_totals_row i = i\<lparr>amount := fmul (flt (qty i)) (flt (item.rate i))\<rparr>"

fun calculate_totals_loop ::
  "item list \<Rightarrow> pyfloat \<Rightarrow> pyfloat \<Rightarrow> item list \<times> pyfloat \<times> pyfloat" where
  "calculate_totals_loop [] tq ta = ([], tq, ta)"
| "calculate_totals_loop (i # is) tq ta =
     (let i' = calculate_totals_row i;
          (rest, tq', ta') =
             calculate_totals_loop is (fadd tq (flt (qty i'))) (fadd ta (amount i'))
      in (i' # rest, tq', ta'))"

definition calculate_totals :: "document \<Rightarrow> document" where
  "calculate_totals d =
     (let (rows, tq, ta) = calculate_totals_loop (items d) (Finite 0) (Finite 0);
          d1 = d\<lparr>items := rows, total_qty := tq, total_amount := ta\<rparr>;
          d2 = calculate_taxes d1
      in d2\<lparr>grand_total := fadd (total_amount d2) (total_tax d2)\<rparr>)"

section \<open>Ledger methods\<close>

text \<open>
  One dictionary handed to \<^verbatim>\<open>self.get_gl_dict\<close>. \<^verbatim>\<open>get_gl_dict\<close> belongs to the
  framework's accounts controller and completes the dictionary with voucher data;
  the fields written by the template are kept as given.
\<close>

record gl_entry =
  account :: string
  party_type :: "string option"
  party :: "string option"
  debit :: number
  credit :: number
  against :: "string option"

definition get_gl_dict :: "gl_entry \<Rightarrow> gl_entry" where
  "get_gl_dict e = e"

text \<open>
  The list \<^verbatim>\<open>gl_entries\<close> that \<^verbatim>\<open>make_gl_entries\<close> builds before it hands it to the
  ledger: the debit entry, the credit entry, then one entry for each tax row.
\<close>

definition tax_gl_entry :: "document \<Rightarrow> tax \<Rightarrow> gl_entry" where
  "tax_gl_entry d t = get_gl_dict
     \<lparr>account = account_head t, party_type = None, party = None,
      debit = PyInt 0, credit = tax_amount t, against = customer d\<rparr>"

definition gl_entries :: "document \<Rightarrow> gl_entry list" where
  "gl_entries d =
     [get_gl_dict \<lparr>account = debit_account d, party_type = Some ''Customer'',
                   party = customer d, debit = PyFloat (grand_total d), credit = PyInt 0,
                   against = Some (credit_account d)\<rparr>,
      get_gl_dict \<lparr>account = credit_account d, party_type = None, party = None,
                   debit = PyInt 0, credit = PyFloat (total_amount d), against = customer d\<rparr>]
     @ map (tax_gl_entry d) (taxes d)"

section \<open>Errors\<close>

text \<open>
  Every failure of the template is \<^verbatim>\<open>frappe.throw(_(msg).format(args))\<close> with no
  exception class given, so all of them are of the framework's default class, the
  validation error. An error keeps its class, the message as written in the source
  and the values formatted into it. Collaborators may raise errors of the other
  classes.
\<close>

datatype error_class = Validation | ExternalDependency | Permission

datatype arg = Str string | Num number

datatype error = Error error_class string "arg list"

definition throw :: "string \<Rightarrow> arg list \<Rightarrow> error" where
  "throw msg args = Error Validation msg args"

fun class_of :: "error \<Rightarrow> error_class" where
  "class_of (Error c msg args) = c"

text \<open>
  A method that changes \<^verbatim>\<open>self\<close> and may raise: the exception leaves the changes made
  before it in place, so a raise carries the state reached.
\<close>

datatype 's outcome = Returned 's | Raised error 's

section \<open>Validation methods\<close>

text \<open>
  What the validation methods take from outside the file: \<^verbatim>\<open>getdate\<close> of
  \<^verbatim>\<open>frappe.utils\<close>, which reads a date field as a date (here its day number), and
  \<^verbatim>\<open>erpnext.stock.utils.get_stock_balance(item_code, warehouse)\<close>, which reports a
  quantity or raises.
\<close>

record env =
  getdate :: "string option \<Rightarrow> int"
  get_stock_balance :: "string \<Rightarrow> string \<Rightarrow> error + number"

text \<open>Python's truth value of a field holding a string or \<^verbatim>\<open>None\<close>.\<close>

definition truthy :: "string option \<Rightarrow> bool" where
  "truthy v = (case v of None \<Rightarrow> False | Some s \<Rightarrow> s \<noteq> [])"

text \<open>
  \<^verbatim>\<open>
  def validate_required_fields(self):
      if not self.customer:
          frappe.throw(_("Customer is required"))
      if not self.items:
          frappe.throw(_("At least one item is required"))
  \<close>
\<close>

definition validate_required_fields :: "document \<Rightarrow> error + unit" where
  "validate_required_fields d =
     (if \<not> truthy (customer d) then Inl (throw ''Customer is required'' [])
      else if items d = [] then Inl (throw ''At least one item is required'' [])
      else Inr ())"

text \<open>
  \<^verbatim>\<open>
  def validate_dates(self):
      if self.from_date and self.to_date:
          if getdate(self.from_date) > getdate(self.to_date):
              frappe.throw(_("From Date cannot be after To Date"))
      if self.due_date and getdate(self.due_date) < getdate(self.posting_date):
          frappe.throw(_("Due Date cannot be before Posting Date"))
  \<close>
\<close>

definition validate_dates :: "env \<Rightarrow> document \<Rightarrow> error + unit" where
  "validate_dates ev d =
     (if truthy (from_date d) \<and> truthy (to_date d)
         \<and> getdate ev (from_date d) > getdate ev (to_date d)
      then Inl (throw ''From Date cannot be after To Date'' [])
      else if truthy (due_date d) \<and> getdate ev (due_date d) < getdate ev (posting_date d)
      then Inl (throw ''Due Date cannot be before Posting Date'' [])
      else Inr ())"

text \<open>
  \<^verbatim>\<open>
  def validate_quantities(self):
      for item in self.items:
          if flt(item.qty) <= 0:
              frappe.throw(_("Quantity must be greater than 0 for item {0}").format(item.item_code))
          if flt(item.rate) < 0:
              frappe.throw(_("Rate cannot be negative for item {0}").format(item.item_code))
  \<close>
\<close>

fun validate_quantities_loop :: "item list \<Rightarrow> error + unit" where
  "validate_quantities_loop [] = Inr ()"
| "validate_quantities_loop (i # is) =
     (if float_le (flt (qty i)) (Finite 0)
      then Inl (throw ''Quantity must be greater than 0 for item {0}'' [Str (item_code i)])
      else if float_lt (flt (item.rate i)) (Finite 0)
      then Inl (throw ''Rate cannot be negative for item {0}'' [Str (item_code i)])
      else validate_quantities_loop is)"

definition validate_quantities :: "document \<Rightarrow> error + unit" where
  "validate_quantities d = validate_quantities_loop (items d)"

text \<open>
  \<^verbatim>\<open>
  def validate_against_stock(self):
      for item in self.items:
          if item.warehouse and item.qty:
              available_qty = get_stock_balance(item.item_code, item.warehouse)
              if available_qty < item.qty:
                  frappe.throw(
                      _("Insufficient stock for item {0}. Available: {1}, Required: {2}").format(
                          item.item_code, available_qty, item.qty))
  \<close>
  A row with no warehouse or with quantity zero is skipped; \<^verbatim>\<open>item.qty\<close> is read as it
  is here, not through \<^verbatim>\<open>flt\<close>.
\<close>

fun validate_against_stock_loop :: "env \<Rightarrow> item list \<Rightarrow> error + unit" where
  "validate_against_stock_loop ev [] = Inr ()"
| "validate_against_stock_loop ev (i # is) =
     (case warehouse i of
        None \<Rightarrow> validate_against_stock_loop ev is
      | Some w \<Rightarrow>
          if w \<noteq> [] \<and> num_truthy (qty i)
          then (case get_stock_balance ev (item_code i) w of
                  Inl e \<Rightarrow> Inl e
                | Inr available_qty \<Rightarrow>
                    if num_lt available_qty (qty i)
                    then Inl (throw
                      ''Insufficient stock for item {0}. Available: {1}, Required: {2}''
                      [Str (item_code i), Num available_qty, Num (qty i)])
                    else validate_against_stock_loop ev is)
          else validate_against_stock_loop ev is)"

definition validate_against_stock :: "env \<Rightarrow> document \<Rightarrow> error + unit" where
  "validate_against_stock ev d = validate_against_stock_loop ev (items d)"

text \<open>
  \<^verbatim>\<open>
  def validate(self):
      self.validate_required_fields()
      self.validate_dates()
      self.validate_quantities()
      self.calculate_totals()
      self.validate_against_stock()
  \<close>
  The first three checks leave the document as it is; the totals are written before
  the stock check runs, so a failure of the stock check carries the document with its
  totals computed.
\<close>

definition validate :: "env \<Rightarrow> document \<Rightarrow> document outcome" where
  "validate ev d =
     (case validate_required_fields d of
        Inl e \<Rightarrow> Raised e d
      | Inr _ \<Rightarrow>
     (case validate_dates ev d of
        Inl e \<Rightarrow> Raised e d
      | Inr _ \<Rightarrow>
     (case validate_quantities d of
        Inl e \<Rightarrow> Raised e d
      | Inr _ \<Rightarrow>
     (let d' = calculate_totals d in
      case validate_against_stock ev d' of
        Inl e \<Rightarrow> Raised e d'
      | Inr _ \<Rightarrow> Returned d'))))"

text \<open>
  The order of checks in the words of the specification (required-field presence,
  date ordering, quantity and rate sanity, availability checks, then derived-total
  computation), written out for comparison with \<open>validate\<close>. It is not the code.
\<close>

definition validate_spec_order :: "env \<Rightarrow> document \<Rightarrow> document outcome" where
  "validate_spec_order ev d =
     (case validate_required_fields d of
        Inl e \<Rightarrow> Raised e d
      | Inr _ \<Rightarrow>
     (case validate_dates ev d of
        Inl e \<Rightarrow> Raised e d
      | Inr _ \<Rightarrow>
     (case validate_quantities d of
        Inl e \<Rightarrow> Raised e d
      | Inr _ \<Rightarrow>
     (case validate_against_stock ev d of
        Inl e \<Rightarrow> Raised e d
      | Inr _ \<Rightarrow> Returned (calculate_totals d)))))"

section \<open>Lifecycle sequencer\<close>

text \<open>
  The template only declares the hook methods; the engine that calls them is the host
  framework's and no part of it is in the repository. The definitions of this section
  follow the design text of the sequencer (\<^verbatim>\<open>run_transition\<close>, section 4.1 of the
  specification).
\<close>

text \<open>
  Modelled from the spec: the lifecycle status of a document (Draft / Submitted /
  Cancelled), kept by the host framework and not in the repository.
\<close>

datatype status = Draft | Submitted | Cancelled

text \<open>
  Modelled from the spec: the transitions the sequencer, which is not in the repository, accepts:
  insert, save, submit, cancel, delete, rename.
\<close>

datatype transition = Insert | Save | Submit | Cancel | Delete | Rename

text \<open>
  Modelled from the spec: the hook points named in the table of canonical orders of the
  sequencer, which is not in the repository.
\<close>

datatype hook_point =
    Before_Insert | Validate | Before_Save | On_Update | After_Insert
  | Before_Submit | Validate_For_Submit | On_Submit
  | Before_Cancel | On_Cancel
  | On_Trash | After_Delete
  | Before_Rename | After_Rename

text \<open>
  Modelled from the spec: the table of canonical hook-point orders of the sequencer,
  which is not in the repository; here the hook points left of the persist step of each transition.
  \<^verbatim>\<open>
  insert  before_insert, validate, before_save, (persist), on_update, after_insert
  save    validate, before_save, (persist), on_update
  submit  before_submit, validate_for_submit, (persist, status=Submitted), on_submit
  cancel  before_cancel, (persist, status=Cancelled), on_cancel
  delete  on_trash, (persist delete), after_delete
  rename  before_rename, (persist rename), after_rename
  \<close>
\<close>

fun before_hooks :: "transition \<Rightarrow> hook_point list" where
  "before_hooks Insert = [Before_Insert, Validate, Before_Save]"
| "before_hooks Save = [Validate, Before_Save]"
| "before_hooks Submit = [Before_Submit, Validate_For_Submit]"
| "before_hooks Cancel = [Before_Cancel]"
| "before_hooks Delete = [On_Trash]"
| "before_hooks Rename = [Before_Rename]"

text \<open>
  Modelled from the spec: the same table of the sequencer, which is not in the repository; here the
  hook points right of the persist step of each transition.
\<close>

fun after_hooks :: "transition \<Rightarrow> hook_point list" where
  "after_hooks Insert = [On_Update, After_Insert]"
| "after_hooks Save = [On_Update]"
| "after_hooks Submit = [On_Submit]"
| "after_hooks Cancel = [On_Cancel]"
| "after_hooks Delete = [After_Delete]"
| "after_hooks Rename = [After_Rename]"

text \<open>
  Modelled from the spec: the status the persist step of the sequencer, which is not
  in the repository, writes: Submitted on submit, Cancelled on cancel, no change otherwise.
\<close>

fun terminal_status :: "transition \<Rightarrow> status \<Rightarrow> status" where
  "terminal_status Submit st = Submitted"
| "terminal_status Cancel st = Cancelled"
| "terminal_status t st = st"

text \<open>
  Modelled from the spec: a callback handed to the sequencer, which is not in the repository. It
  reads the current status, reads and writes the rest of the state, and returns or
  signals failure.
\<close>

type_synonym 's callback = "status \<Rightarrow> 's \<Rightarrow> 's outcome"

text \<open>
  Modelled from the spec: the callbacks registered for one hook point, in the order of
  the list of (hook point, callback) pairs given to the sequencer, which is not in the repository.
\<close>

definition callbacks_at :: "(hook_point \<times> 's callback) list \<Rightarrow> hook_point \<Rightarrow> 's callback list" where
  "callbacks_at cbs h = map snd (filter (\<lambda>p. fst p = h) cbs)"

text \<open>
  Modelled from the spec: the sequencer, which is not in the repository, invokes the callbacks of
  a hook point in order and stops at the first failure.
\<close>

fun run_callbacks :: "status \<Rightarrow> 's callback list \<Rightarrow> 's \<Rightarrow> 's outcome" where
  "run_callbacks st [] s = Returned s"
| "run_callbacks st (c # cs) s =
     (case c st s of
        Raised e s' \<Rightarrow> Raised e s'
      | Returned s' \<Rightarrow> run_callbacks st cs s')"

text \<open>
  Modelled from the spec: the sequencer, which is not in the repository, visits the hook points
  of a list in order. The second component lists the hook points visited, the last of
  them being the one that raised when the outcome is a raise.
\<close>

fun run_hooks ::
  "status \<Rightarrow> (hook_point \<times> 's callback) list \<Rightarrow> hook_point list \<Rightarrow> 's
     \<Rightarrow> 's outcome \<times> hook_point list" where
  "run_hooks st cbs [] s = (Returned s, [])"
| "run_hooks st cbs (h # hs) s =
     (case run_callbacks st (callbacks_at cbs h) s of
        Raised e s' \<Rightarrow> (Raised e s', [h])
      | Returned s' \<Rightarrow> (let (r, tr) = run_hooks st cbs hs s' in (r, h # tr)))"

text \<open>
  Modelled from the spec: what a run of the sequencer, which is not in the repository, yields: the
  failure if there was one, the status and the state it ends with, and the hook points
  it invoked.
\<close>

record 's run_result =
  error :: "error option"
  status_after :: status
  state_after :: 's
  invoked :: "hook_point list"

text \<open>
  Modelled from the spec: \<^verbatim>\<open>run_transition(document, transition, callbacks)\<close> of the
  sequencer, which is not in the repository: the hook points of the transition are
  visited in the canonical order and the first failure ends the run. The design text
  names two results. On success the status is the terminal status and the hooks after
  the persist step have run on the state with that status. On failure the status is the
  one the transition started with, no hook after the persist step has run, and the
  changes the callbacks made to the rest of the state stay.

  The design text gives every callback the right to signal failure, and does not say
  what the result is when a callback of a hook after the persist step does so. That
  hook has run by then, so this case cannot meet the second result in full; the
  definition ends the run there and reports the failure with the starting status, as
  section 7 of the specification asks of every error (the transition is aborted and the
  status left unchanged).
\<close>

definition run_transition ::
  "transition \<Rightarrow> (hook_point \<times> 's callback) list \<Rightarrow> status \<times> 's \<Rightarrow> 's run_result" where
  "run_transition t cbs x =
     (case x of (st, s) \<Rightarrow>
      (case run_hooks st cbs (before_hooks t) s of
         (Raised e s1, tr1) \<Rightarrow>
           \<lparr>error = Some e, status_after = st, state_after = s1, invoked = tr1\<rparr>
       | (Returned s1, tr1) \<Rightarrow>
          (case run_hooks (terminal_status t st) cbs (after_hooks t) s1 of
             (Raised e s2, tr2) \<Rightarrow>
               \<lparr>error = Some e, status_after = st, state_after = s2, invoked = tr1 @ tr2\<rparr>
           | (Returned s2, tr2) \<Rightarrow>
               \<lparr>error = None, status_after = terminal_status t st, state_after = s2,
                invoked = tr1 @ tr2\<rparr>)))"

text \<open>
  Modelled from the spec: the invariant of a document's status (section 3 of the
  specification), enforced by the host framework and not in the repository. Status
  moves from Draft to Submitted to Cancelled only: submit starts from Draft, cancel is
  the explicit path after submit and starts from Submitted, and a cancelled document is
  neither resubmitted nor edited again (insert, save); rename stays open to it, and the
  text puts no condition on delete.
\<close>

fun permitted :: "transition \<Rightarrow> status \<Rightarrow> bool" where
  "permitted Submit st = (st = Draft)"
| "permitted Cancel st = (st = Submitted)"
| "permitted Insert st = (st \<noteq> Cancelled)"
| "permitted Save st = (st \<noteq> Cancelled)"
| "permitted Delete st = True"
| "permitted Rename st = True"

text \<open>
  Modelled from the spec: a transition asked of the sequencer, which is not in the
  repository, on a document of a given status: one that the invariant of the status
  forbids is refused with a validation error (the document state violates a rule)
  before any hook runs; any other is run by \<open>run_transition\<close>.
\<close>

definition request_transition ::
  "transition \<Rightarrow> (hook_point \<times> 's callback) list \<Rightarrow> status \<times> 's \<Rightarrow> 's run_result" where
  "request_transition t cbs x =
     (case x of (st, s) \<Rightarrow>
        if permitted t st then run_transition t cbs (st, s)
        else \<lparr>error = Some (throw ''Transition is not permitted in this status'' []),
              status_after = st, state_after = s, invoked = []\<rparr>)"

section \<open>The template's hooks on a document and its ledger\<close>

text \<open>
  The state the hooks of the template act on: the document and the ledger. The ledger
  is the framework's accounting collaborator (\<^verbatim>\<open>post_entries(list of entries,
  reversal)\<close> in the design text); of it the state keeps the calls made, each with the
  list of entries and the \<^verbatim>\<open>cancel\<close> flag it was given.
\<close>

record world =
  doc :: document
  ledger :: "(gl_entry list \<times> bool) list"

text \<open>\<open>validate\<close> as a callback: it acts on the document and leaves the ledger alone.\<close>

definition validate_hook :: "env \<Rightarrow> world callback" where
  "validate_hook ev st w =
     (case validate ev (doc w) of
        Raised e d' \<Rightarrow> Raised e (w\<lparr>doc := d'\<rparr>)
      | Returned d' \<Rightarrow> Returned (w\<lparr>doc := d'\<rparr>))"

text \<open>
  \<^verbatim>\<open>make_gl_entries\<close> ends with \<^verbatim>\<open>make_gl_entries(gl_entries, cancel=0)\<close> of
  \<^verbatim>\<open>erpnext.accounts.general_ledger\<close>: one call to the ledger with the list built.
\<close>

definition make_gl_entries :: "world \<Rightarrow> world" where
  "make_gl_entries w = w\<lparr>ledger := ledger w @ [(gl_entries (doc w), False)]\<rparr>"

text \<open>
  Methods that \<^verbatim>\<open>on_submit\<close> calls and whose bodies the file does not hold in full
  are parameters.
  \<^verbatim>\<open>
  def on_submit(self):
      self.make_gl_entries()
      self.update_stock_ledger()
      self.create_related_documents()
      self.update_status()
  \<close>
\<close>

record methods =
  update_stock_ledger :: "world \<Rightarrow> world outcome"
  create_related_documents :: "world \<Rightarrow> world outcome"
  update_status :: "world \<Rightarrow> world outcome"

definition on_submit :: "methods \<Rightarrow> world callback" where
  "on_submit ms st w =
     (case update_stock_ledger ms (make_gl_entries w) of
        Raised e w1 \<Rightarrow> Raised e w1
      | Returned w1 \<Rightarrow>
     (case create_related_documents ms w1 of
        Raised e w2 \<Rightarrow> Raised e w2
      | Returned w2 \<Rightarrow> update_status ms w2))"

section \<open>API endpoint\<close>

text \<open>
  \<^verbatim>\<open>references/erpnext-master/26_TEMPLATES/api-endpoint.py\<close>. The fields of a
  Customer document that the endpoint reads.
\<close>

record customer_doc =
  name :: string
  customer_name :: string
  customer_type :: string
  credit_limit :: number
  territory :: string
  customer_group :: string

text \<open>
  Modelled from the spec: the persistence collaborator, which is the framework's and not
  in the repository, as a table from identifiers to Customer documents.
\<close>

type_synonym customers = "string \<rightharpoonup> customer_doc"

text \<open>
  Modelled from the spec: \<^verbatim>\<open>exists(type, filter) -> bool\<close> of the persistence
  collaborator, which is not in the repository, called as
  \<^verbatim>\<open>frappe.db.exists("Customer", customer)\<close>: whether the identifier is in the table.
\<close>

definition db_exists :: "customers \<Rightarrow> string \<Rightarrow> bool" where
  "db_exists db c = (db c \<noteq> None)"

text \<open>
  Modelled from the spec: \<^verbatim>\<open>get(type, id) -> Document\<close> of the persistence
  collaborator, which is not in the repository, called as
  \<^verbatim>\<open>frappe.get_doc("Customer", customer)\<close>: the document of the identifier, or an
  error of the collaborator when the table has none.
\<close>

definition get_doc :: "customers \<Rightarrow> string \<Rightarrow> error + customer_doc" where
  "get_doc db c =
     (case db c of
        None \<Rightarrow> Inl (Error ExternalDependency ''DoesNotExistError'' [Str c])
      | Some cd \<Rightarrow> Inr cd)"

text \<open>A value that serializes to JSON, and a dictionary with string keys.\<close>

datatype json = JString string | JNumber number

text \<open>
  \<^verbatim>\<open>
  def get_customer_info(customer):
      if not frappe.db.exists("Customer", customer):
          frappe.throw(_("Customer {0} not found").format(customer))
      customer_doc = frappe.get_doc("Customer", customer)
      return {
          "name": customer_doc.name,
          "customer_name": customer_doc.customer_name,
          "customer_type": customer_doc.customer_type,
          "credit_limit": customer_doc.credit_limit,
          "territory": customer_doc.territory,
          "customer_group": customer_doc.customer_group,
      }
  \<close>
\<close>

definition get_customer_info :: "customers \<Rightarrow> string \<Rightarrow> error + (string \<times> json) list" where
  "get_customer_info db c =
     (if \<not> db_exists db c then Inl (throw ''Customer {0} not found'' [Str c])
      else (case get_doc db c of
              Inl e \<Rightarrow> Inl e
            | Inr cd \<Rightarrow>
                Inr [(''name'', JString (name cd)),
                     (''customer_name'', JString (customer_name cd)),
                     (''customer_type'', JString (customer_type cd)),
                     (''credit_limit'', JNumber (credit_limit cd)),
                     (''territory'', JString (territory cd)),
                     (''customer_group'', JString (customer_group cd))]))"

section \<open>Example documents\<close>

text \<open>
  The document of the design text's example: items \<^verbatim>\<open>[{qty:2, rate:100}, {qty:1,
  rate:50}]\<close> and one tax row \<^verbatim>\<open>{charge_type:"On Net Total", rate:10}\<close>.
\<close>

definition example_item1 :: item where
  "example_item1 =
     \<lparr>item_code = ''ITEM-1'', qty = PyInt 2, rate = PyInt 100, amount = Finite 0,
      warehouse = None\<rparr>"

definition example_item2 :: item where
  "example_item2 =
     \<lparr>item_code = ''ITEM-2'', qty = PyInt 1, rate = PyInt 50, amount = Finite 0,
      warehouse = None\<rparr>"

definition example_tax :: tax where
  "example_tax =
     \<lparr>charge_type = ''On Net Total'', rate = PyInt 10, tax_amount = PyInt 0,
      account_head = ''VAT''\<rparr>"

definition example_doc :: document where
  "example_doc =
     \<lparr>customer = Some ''CUST-1'', items = [example_item1, example_item2],
      taxes = [example_tax], from_date = None, to_date = None, due_date = None,
      posting_date = None, total_qty = Finite 0, total_amount = Finite 0,
      total_tax = Finite 0, grand_total = Finite 0, debit_account = ''Debtors'', credit_account = ''Sales''\<rparr>"

text \<open>A tax row with a pre-set amount, and a row of a charge type the code does not name.\<close>

definition actual_tax :: tax where
  "actual_tax =
     \<lparr>charge_type = ''Actual'', rate = PyInt 0, tax_amount = PyInt 7,
      account_head = ''Freight''\<rparr>"

definition other_tax :: tax where
  "other_tax =
     \<lparr>charge_type = ''On Previous Row Total'', rate = PyInt 5, tax_amount = PyInt 3,
      account_head = ''Cess''\<rparr>"

definition mixed_tax_doc :: document where
  "mixed_tax_doc =
     example_doc\<lparr>total_amount := Finite 250, taxes := [example_tax, actual_tax, other_tax]\<rparr>"

text \<open>
  A collaborator that reads two dates by their day of the year and reports a stock
  balance of 3 for every item and warehouse.
\<close>

definition example_env :: env where
  "example_env =
     \<lparr>getdate = (\<lambda>v. if v = Some ''2024-02-01'' then 32
                      else if v = Some ''2024-01-01'' then 1 else 0),
      get_stock_balance = (\<lambda>code w. Inr (PyInt 3))\<rparr>"

text \<open>A document whose from-date lies after its to-date.\<close>

definition late_doc :: document where
  "late_doc = example_doc\<lparr>from_date := Some ''2024-02-01'', to_date := Some ''2024-01-01''\<rparr>"

text \<open>A row asking for 5 units out of a warehouse, and the same row with no warehouse.\<close>

definition stocked_item :: item where
  "stocked_item =
     \<lparr>item_code = ''ITEM-3'', qty = PyInt 5, rate = PyInt 10, amount = Finite 0,
      warehouse = Some ''Stores''\<rparr>"

definition short_doc :: document where
  "short_doc = example_doc\<lparr>items := [stocked_item]\<rparr>"

definition no_warehouse_doc :: document where
  "no_warehouse_doc = example_doc\<lparr>items := [stocked_item\<lparr>warehouse := None\<rparr>]\<rparr>"

text \<open>A row with quantity zero, on a document with and without a customer.\<close>

definition zero_item :: item where
  "zero_item =
     \<lparr>item_code = ''ITEM-0'', qty = PyInt 0, rate = PyInt 10, amount = Finite 0, warehouse = None\<rparr>"

definition zero_qty_doc :: document where
  "zero_qty_doc = example_doc\<lparr>items := [example_item1, zero_item]\<rparr>"

definition no_customer_doc :: document where
  "no_customer_doc = zero_qty_doc\<lparr>customer := None\<rparr>"

text \<open>
  Methods that return at once, and a registration of the template's hooks:
  \<open>validate\<close> where its docstring says it is called (on save, and before submit) and
  \<open>on_submit\<close> at its hook point.
\<close>

definition example_methods :: methods where
  "example_methods =
     \<lparr>update_stock_ledger = Returned, create_related_documents = Returned,
      update_status = Returned\<rparr>"

definition example_callbacks :: "(hook_point \<times> world callback) list" where
  "example_callbacks =
     [(Validate, validate_hook example_env), (Before_Submit, validate_hook example_env),
      (On_Submit, on_submit example_methods)]"

text \<open>
  Documents on which float arithmetic shows: a quantity that is an int above
  \<open>2 ^ 53\<close>; one unit at rate 1 with a tax of 7 per cent; quantity and rate \<open>2 ^ 600\<close>
  with a tax of rate 0; one unit at 9.99 (the float nearest to it) with taxes of 7 and
  3 per cent.
\<close>

definition big_qty_doc :: document where
  "big_qty_doc = example_doc
     \<lparr>items := [\<lparr>item_code = ''ITEM-4'', qty = PyInt 9007199254740993, rate = PyInt 1,
                  amount = Finite 0, warehouse = None\<rparr>],
      taxes := []\<rparr>"

definition seven_percent_doc :: document where
  "seven_percent_doc = example_doc
     \<lparr>items := [\<lparr>item_code = ''ITEM-5'', qty = PyInt 1, rate = PyInt 1,
                  amount = Finite 0, warehouse = None\<rparr>],
      taxes := [\<lparr>charge_type = ''On Net Total'', rate = PyInt 7, tax_amount = PyInt 0,
                  account_head = ''VAT''\<rparr>]\<rparr>"

definition nan_doc :: document where
  "nan_doc = example_doc
     \<lparr>items := [\<lparr>item_code = ''ITEM-6'', qty = PyFloat (Finite (2 ^ 600)),
                  rate = PyFloat (Finite (2 ^ 600)), amount = Finite 0, warehouse = None\<rparr>],
      taxes := [\<lparr>charge_type = ''On Net Total'', rate = PyInt 0, tax_amount = PyInt 0,
                  account_head = ''VAT''\<rparr>]\<rparr>"

definition price_doc :: document where
  "price_doc = example_doc
     \<lparr>items := [\<lparr>item_code = ''ITEM-7'', qty = PyInt 1,
                  rate = PyFloat (Finite (5623870034678907 / 2 ^ 49)),
                  amount = Finite 0, warehouse = None\<rparr>],
      taxes := [\<lparr>charge_type = ''On Net Total'', rate = PyInt 7, tax_amount = PyInt 0,
                  account_head = ''VAT''\<rparr>,
                \<lparr>charge_type = ''On Net Total'', rate = PyInt 3, tax_amount = PyInt 0,
                  account_head = ''Cess''\<rparr>]\<rparr>"

text \<open>
  Methods of which \<^verbatim>\<open>create_related_documents\<close> raises, and the registration of the
  template's hooks with them.
\<close>

definition raising_methods :: methods where
  "raising_methods =
     \<lparr>update_stock_ledger = Returned,
      create_related_documents =
        Raised (Error ExternalDependency ''Related document could not be created'' []),
      update_status = Returned\<rparr>"

definition raising_callbacks :: "(hook_point \<times> world callback) list" where
  "raising_callbacks =
     [(Validate, validate_hook example_env), (Before_Submit, validate_hook example_env),
      (On_Submit, on_submit raising_methods)]"

text \<open>A table of customers with one entry.\<close>

definition example_customer :: customer_doc where
  "example_customer =
     \<lparr>name = ''CUST-1'', customer_name = ''Acme'', customer_type = ''Company'',
      credit_limit = PyInt 1000, territory = ''All Territories'', customer_group = ''Commercial''\<rparr>"

definition example_db :: customers where
  "example_db = [''CUST-1'' \<mapsto> example_customer]"

section \<open>Properties of the calculation methods\<close>

lemma calculate_totals_loop_eq:
  "calculate_totals_loop xs tq ta =
     (map calculate_totals_row xs,
      foldl fadd tq (map (\<lambda>i. flt (qty i)) xs),
      foldl fadd ta (map (\<lambda>i. fmul (flt (qty i)) (flt (item.rate i))) xs))"
  by (induction xs arbitrary: tq ta) (simp_all add: calculate_totals_row_def Let_def)

lemma calculate_taxes_loop_eq:
  "calculate_taxes_loop net ts acc =
     (map (calculate_taxes_row net) ts,
      foldl fadd acc (map (\<lambda>t. flt (tax_amount (calculate_taxes_row net t))) ts))"
  by (induction ts arbitrary: acc) (simp_all add: Let_def)

lemma calculate_taxes_eq:
  "calculate_taxes d =
     d\<lparr>taxes := map (calculate_taxes_row (total_amount d)) (taxes d),
       total_tax := foldl fadd (Finite 0)
         (map (\<lambda>t. flt (tax_amount (calculate_taxes_row (total_amount d) t))) (taxes d))\<rparr>"
  by (simp add: calculate_taxes_def calculate_taxes_loop_eq)

lemma items_calculate_totals:
  "items (calculate_totals d) = map calculate_totals_row (items d)"
  by (simp add: calculate_totals_def calculate_taxes_eq calculate_totals_loop_eq)

lemma total_qty_calculate_totals:
  "total_qty (calculate_totals d) = foldl fadd (Finite 0) (map (\<lambda>i. flt (qty i)) (items d))"
  by (simp add: calculate_totals_def calculate_taxes_eq calculate_totals_loop_eq)

lemma total_amount_calculate_totals:
  "total_amount (calculate_totals d)
     = foldl fadd (Finite 0) (map (\<lambda>i. fmul (flt (qty i)) (flt (item.rate i))) (items d))"
  by (simp add: calculate_totals_def calculate_taxes_eq calculate_totals_loop_eq)

lemma taxes_calculate_totals:
  "taxes (calculate_totals d) =
     map (calculate_taxes_row (total_amount (calculate_totals d))) (taxes d)"
  by (simp add: calculate_totals_def calculate_taxes_eq calculate_totals_loop_eq)

lemma flt_tax_amount_row:
  "flt (tax_amount (calculate_taxes_row net (calculate_taxes_row net t)))
     = flt (tax_amount (calculate_taxes_row net t))"
  by (simp add: calculate_taxes_row_def)

lemma total_tax_calculate_totals:
  "total_tax (calculate_totals d)
     = foldl fadd (Finite 0) (map (\<lambda>t. flt (tax_amount t)) (taxes (calculate_totals d)))"
  by (simp add: calculate_totals_def calculate_taxes_eq calculate_totals_loop_eq comp_def)

lemma grand_total_calculate_totals:
  "grand_total (calculate_totals d) =
     fadd (total_amount (calculate_totals d)) (total_tax (calculate_totals d))"
  by (simp add: calculate_totals_def calculate_taxes_eq calculate_totals_loop_eq)

lemma amount_rows:
  "map amount (map calculate_totals_row xs)
     = map (\<lambda>i. fmul (flt (qty i)) (flt (item.rate i))) xs"
  by (simp add: calculate_totals_row_def)

text \<open>Float results that the examples need; each is an evaluation of \<open>round_double\<close>.\<close>

lemma round_double_examples:
  "round_double 2 = Finite 2"
  "round_double 100 = Finite 100"
  "round_double 1 = Finite 1"
  "round_double 50 = Finite 50"
  "round_double 10 = Finite 10"
  "round_double 200 = Finite 200"
  "round_double 250 = Finite 250"
  "round_double 2500 = Finite 2500"
  "round_double 25 = Finite 25"
  "round_double 275 = Finite 275"
  by code_simp+

lemma calculate_totals_example_doc:
  "calculate_totals example_doc = example_doc
     \<lparr>items := [example_item1\<lparr>amount := Finite 200\<rparr>, example_item2\<lparr>amount := Finite 50\<rparr>],
      taxes := [example_tax\<lparr>tax_amount := PyFloat (Finite 25)\<rparr>],
      total_qty := Finite 3, total_amount := Finite 250, total_tax := Finite 25,
      grand_total := Finite 275\<rparr>"
  by code_simp

section \<open>Properties of the validation methods\<close>

lemma validate_quantities_loop_zero:
  "i \<in> set xs \<Longrightarrow> float_le (flt (qty i)) (Finite 0) \<Longrightarrow> \<exists>code.
     validate_quantities_loop xs
       = Inl (throw ''Quantity must be greater than 0 for item {0}'' [Str code])
   \<or> validate_quantities_loop xs
       = Inl (throw ''Rate cannot be negative for item {0}'' [Str code])"
  by (induction xs) auto

lemma validate_quantities_loop_pos:
  "validate_quantities_loop xs = Inr () \<Longrightarrow> i \<in> set xs
   \<Longrightarrow> \<not> float_le (flt (qty i)) (Finite 0)"
  by (induction xs) (auto split: if_splits)

lemma round_double_zero: "round_double 0 = Finite 0"
  by (simp add: round_double_def)

lemma positive_qty_truthy:
  "\<not> float_le (flt q) (Finite 0) \<Longrightarrow> num_truthy q"
  by (cases q) (auto simp: num_truthy_def round_double_zero)

lemma validate_against_stock_loop_row:
  "validate_against_stock_loop ev (map calculate_totals_row xs)
     = validate_against_stock_loop ev xs"
  by (induction xs) (simp_all add: calculate_totals_row_def split: option.splits sum.splits)

lemma validate_against_stock_calculate_totals:
  "validate_against_stock ev (calculate_totals d) = validate_against_stock ev d"
  by (simp add: validate_against_stock_def items_calculate_totals
      validate_against_stock_loop_row)

lemma validate_quantities_raises:
  "validate_required_fields d = Inr () \<Longrightarrow> validate_dates ev d = Inr ()
   \<Longrightarrow> validate_quantities d = Inl e \<Longrightarrow> validate ev d = Raised e d"
  by (simp add: validate_def)

lemma validate_stock_raises:
  "validate_required_fields d = Inr () \<Longrightarrow> validate_dates ev d = Inr ()
   \<Longrightarrow> validate_quantities d = Inr () \<Longrightarrow> validate_against_stock ev d = Inl e
   \<Longrightarrow> validate ev d = Raised e (calculate_totals d)"
  by (simp add: validate_def Let_def validate_against_stock_calculate_totals)

lemma validate_returns:
  "validate_required_fields d = Inr () \<Longrightarrow> validate_dates ev d = Inr ()
   \<Longrightarrow> validate_quantities d = Inr () \<Longrightarrow> validate_against_stock ev d = Inr ()
   \<Longrightarrow> validate ev d = Returned (calculate_totals d)"
  by (simp add: validate_def Let_def validate_against_stock_calculate_totals)

lemma stock_loop_fails:
  assumes "i \<in> set xs" "warehouse i = Some w" "w \<noteq> []" "num_truthy (qty i)"
    and "get_stock_balance ev (item_code i) w = Inr a" "num_lt a (qty i)"
  shows "\<exists>e. validate_against_stock_loop ev xs = Inl e
           \<and> ((\<exists>code b q. e = throw ''Insufficient stock for item {0}. Available: {1}, Required: {2}''
                   [Str code, Num b, Num q] \<and> num_lt b q)
              \<or> (\<exists>j \<in> set xs. \<exists>w'. get_stock_balance ev (item_code j) w' = Inl e))"
  using assms
proof (induction xs)
  case Nil
  then show ?case by simp
next
  case (Cons x xs)
  show ?case
  proof (cases "i = x")
    case True
    then show ?thesis using Cons.prems by auto
  next
    case False
    then have mem: "i \<in> set xs" using Cons.prems(1) by simp
    have ih: "\<exists>e. validate_against_stock_loop ev xs = Inl e
           \<and> ((\<exists>code b q. e = throw ''Insufficient stock for item {0}. Available: {1}, Required: {2}''
                   [Str code, Num b, Num q] \<and> num_lt b q)
              \<or> (\<exists>j \<in> set xs. \<exists>w'. get_stock_balance ev (item_code j) w' = Inl e))"
      using Cons.IH [OF mem Cons.prems(2-6)] .
    then have ih': "\<exists>e. validate_against_stock_loop ev xs = Inl e
           \<and> ((\<exists>code b q. e = throw ''Insufficient stock for item {0}. Available: {1}, Required: {2}''
                   [Str code, Num b, Num q] \<and> num_lt b q)
              \<or> (\<exists>j \<in> set (x # xs). \<exists>w'. get_stock_balance ev (item_code j) w' = Inl e))"
      by auto
    show ?thesis
    proof (cases "validate_against_stock_loop ev (x # xs) = validate_against_stock_loop ev xs")
      case True
      then show ?thesis using ih' by simp
    next
      case False
      then obtain wx where wx: "warehouse x = Some wx" "wx \<noteq> []" "num_truthy (qty x)"
        by (auto split: option.splits if_splits)
      show ?thesis
      proof (cases "get_stock_balance ev (item_code x) wx")
        case (Inl e)
        then have "validate_against_stock_loop ev (x # xs) = Inl e" using wx by simp
        moreover have "\<exists>j \<in> set (x # xs). \<exists>w'. get_stock_balance ev (item_code j) w' = Inl e"
          using Inl by auto
        ultimately show ?thesis by blast
      next
        case (Inr b)
        then have lt: "num_lt b (qty x)" using False wx by (auto split: if_splits)
        then have "validate_against_stock_loop ev (x # xs)
            = Inl (throw ''Insufficient stock for item {0}. Available: {1}, Required: {2}''
                   [Str (item_code x), Num b, Num (qty x)])"
          using Inr wx by simp
        then show ?thesis using lt by blast
      qed
    qed
  qed
qed

lemma validate_hook_raises:
  "validate ev (doc w) = Raised e d' \<Longrightarrow> validate_hook ev st w = Raised e (w\<lparr>doc := d'\<rparr>)"
  by (simp add: validate_hook_def)

lemma validate_hook_returns:
  "validate ev (doc w) = Returned d' \<Longrightarrow> validate_hook ev st w = Returned (w\<lparr>doc := d'\<rparr>)"
  by (simp add: validate_hook_def)

lemma example_checks:
  "validate_required_fields no_customer_doc = Inl (throw ''Customer is required'' [])"
  "validate_required_fields late_doc = Inr ()"
  "validate_dates example_env late_doc = Inl (throw ''From Date cannot be after To Date'' [])"
  "validate_required_fields zero_qty_doc = Inr ()"
  "validate_dates example_env zero_qty_doc = Inr ()"
  "validate_quantities zero_qty_doc
     = Inl (throw ''Quantity must be greater than 0 for item {0}'' [Str ''ITEM-0''])"
  "validate_quantities no_customer_doc
     = Inl (throw ''Quantity must be greater than 0 for item {0}'' [Str ''ITEM-0''])"
  "validate_required_fields short_doc = Inr ()"
  "validate_dates example_env short_doc = Inr ()"
  "validate_quantities short_doc = Inr ()"
  "validate_against_stock example_env short_doc
     = Inl (throw ''Insufficient stock for item {0}. Available: {1}, Required: {2}''
             [Str ''ITEM-3'', Num (PyInt 3), Num (PyInt 5)])"
  "validate_required_fields example_doc = Inr ()"
  "validate_dates example_env example_doc = Inr ()"
  "validate_quantities example_doc = Inr ()"
  "validate_against_stock example_env example_doc = Inr ()"
  "validate_required_fields no_warehouse_doc = Inr ()"
  "validate_dates example_env no_warehouse_doc = Inr ()"
  "validate_quantities no_warehouse_doc = Inr ()"
  "validate_against_stock example_env no_warehouse_doc = Inr ()"
  by code_simp+

section \<open>Properties of the sequencer\<close>

lemma run_callbacks_raises:
  "run_callbacks st cs1 s = Returned s2 \<Longrightarrow> c st s2 = Raised e s1
   \<Longrightarrow> run_callbacks st (cs1 @ c # cs2) s = Raised e s1"
  by (induction cs1 arbitrary: s) (auto split: outcome.splits)

lemma run_hooks_append:
  "run_hooks st cbs (pre @ hs) s =
     (case run_hooks st cbs pre s of
        (Raised e s1, tr) \<Rightarrow> (Raised e s1, tr)
      | (Returned s1, tr) \<Rightarrow>
          (fst (run_hooks st cbs hs s1), tr @ snd (run_hooks st cbs hs s1)))"
  by (induction pre arbitrary: s) (simp_all add: split_beta split: outcome.splits)

lemma run_hooks_returned:
  "run_hooks st cbs hs s = (Returned s1, tr) \<Longrightarrow> tr = hs"
  by (induction hs arbitrary: s tr) (auto split: outcome.splits prod.splits)

lemma run_hooks_raises_at:
  assumes "fst (run_hooks st cbs pre s0) = Returned s"
    and "callbacks_at cbs h = cs1 @ c # cs2"
    and "run_callbacks st cs1 s = Returned s2" and "c st s2 = Raised e s1"
  shows "run_hooks st cbs (pre @ h # post) s0 = (Raised e s1, pre @ [h])"
proof -
  obtain tr where r: "run_hooks st cbs pre s0 = (Returned s, tr)"
    using assms(1) by (cases "run_hooks st cbs pre s0") simp
  then have "tr = pre" by (rule run_hooks_returned)
  moreover have "run_callbacks st (callbacks_at cbs h) s = Raised e s1"
    using run_callbacks_raises [of st cs1 s s2 c e s1 cs2] assms(2,3,4) by simp
  ultimately show ?thesis using r by (simp add: run_hooks_append)
qed

lemma run_hooks_callback_raises:
  assumes "fst (run_hooks st cbs pre s0) = Returned s"
    and "callbacks_at cbs h = c # cs" and "c st s = Raised e s1"
  shows "run_hooks st cbs (pre @ h # post) s0 = (Raised e s1, pre @ [h])"
proof -
  have a: "callbacks_at cbs h = [] @ c # cs" using assms(2) by simp
  have b: "run_callbacks st [] s = Returned s" by simp
  show ?thesis using run_hooks_raises_at [OF assms(1) a b assms(3)] .
qed

lemma run_transition_callback_raises:
  assumes "before_hooks t = pre @ h # post"
    and "fst (run_hooks st cbs pre s0) = Returned s"
    and "callbacks_at cbs h = c # cs" and "c st s = Raised e s1"
  shows "run_transition t cbs (st, s0)
           = \<lparr>error = Some e, status_after = st, state_after = s1, invoked = pre @ [h]\<rparr>"
  using run_hooks_callback_raises [OF assms(2-4)] assms(1) by (simp add: run_transition_def)

lemma run_transition_raises_before:
  assumes "before_hooks t = pre @ h # post"
    and "fst (run_hooks st cbs pre s0) = Returned s"
    and "callbacks_at cbs h = cs1 @ c # cs2"
    and "run_callbacks st cs1 s = Returned s2" and "c st s2 = Raised e s1"
  shows "run_transition t cbs (st, s0)
           = \<lparr>error = Some e, status_after = st, state_after = s1, invoked = pre @ [h]\<rparr>"
  using run_hooks_raises_at [OF assms(2-5)] assms(1) by (simp add: run_transition_def)

lemma run_transition_raises_after:
  assumes "fst (run_hooks st cbs (before_hooks t) s0) = Returned s"
    and "after_hooks t = pre @ h # post"
    and "fst (run_hooks (terminal_status t st) cbs pre s) = Returned s3"
    and "callbacks_at cbs h = cs1 @ c # cs2"
    and "run_callbacks (terminal_status t st) cs1 s3 = Returned s2"
    and "c (terminal_status t st) s2 = Raised e s1"
  shows "run_transition t cbs (st, s0)
           = \<lparr>error = Some e, status_after = st, state_after = s1,
              invoked = before_hooks t @ pre @ [h]\<rparr>"
proof -
  obtain tr where r: "run_hooks st cbs (before_hooks t) s0 = (Returned s, tr)"
    using assms(1) by (cases "run_hooks st cbs (before_hooks t) s0") simp
  then have tr: "tr = before_hooks t" by (rule run_hooks_returned)
  have "run_hooks (terminal_status t st) cbs (after_hooks t) s = (Raised e s1, pre @ [h])"
    using run_hooks_raises_at [OF assms(3-6)] assms(2) by simp
  then show ?thesis using r tr by (simp add: run_transition_def)
qed

lemma take_length_self: "xs = take n ys \<Longrightarrow> xs = take (length xs) ys"
  by (metis append_eq_conv_conj append_take_drop_id)

lemma hooks_distinct: "distinct (before_hooks t @ after_hooks t)"
  by (cases t) simp_all

lemma before_prefix_no_later:
  assumes "before_hooks t = pre @ h # post"
  shows "set (pre @ [h]) \<inter> set (post @ after_hooks t) = {}"
  using hooks_distinct [of t] assms by auto

lemma after_prefix_no_later:
  assumes "after_hooks t = pre @ h # post"
  shows "set (before_hooks t @ pre @ [h]) \<inter> set post = {}"
  using hooks_distinct [of t] assms by auto

lemma run_hooks_raised:
  "run_hooks st cbs hs s = (Raised e s1, tr) \<Longrightarrow> \<exists>k < length hs. tr = take (Suc k) hs"
proof (induction hs arbitrary: s tr)
  case Nil
  then show ?case by simp
next
  case (Cons h hs)
  show ?case
  proof (cases "run_callbacks st (callbacks_at cbs h) s")
    case (Raised e2 s2)
    then have "tr = [h]" using Cons.prems by simp
    then show ?thesis by auto
  next
    case (Returned s2)
    then obtain tr' where r: "run_hooks st cbs hs s2 = (Raised e s1, tr')" and tr: "tr = h # tr'"
      using Cons.prems by (auto split: prod.splits)
    from Cons.IH [OF r] obtain k where "k < length hs" "tr' = take (Suc k) hs" by blast
    then have "Suc k < length (h # hs) \<and> tr = take (Suc (Suc k)) (h # hs)" using tr by simp
    then show ?thesis by blast
  qed
qed

lemma run_hooks_raised_subset:
  "run_hooks st cbs hs s = (Raised e s1, tr)
   \<Longrightarrow> tr \<noteq> [] \<and> set tr \<subseteq> set hs \<and> last tr \<in> set hs"
proof -
  assume a: "run_hooks st cbs hs s = (Raised e s1, tr)"
  obtain k where k: "k < length hs" "tr = take (Suc k) hs"
    using run_hooks_raised [OF a] by blast
  then have ne: "tr \<noteq> []" by auto
  have sub: "set tr \<subseteq> set hs" using k by (simp add: set_take_subset)
  then have "last tr \<in> set hs" using ne last_in_set by blast
  then show ?thesis using ne sub by simp
qed

lemma run_transition_reported:
  assumes err: "error (run_transition t cbs (st, s)) = Some e"
  shows "status_after (run_transition t cbs (st, s)) = st
   \<and> (\<exists>k < length (before_hooks t @ after_hooks t).
         invoked (run_transition t cbs (st, s)) = take (Suc k) (before_hooks t @ after_hooks t))
   \<and> (set (invoked (run_transition t cbs (st, s))) \<inter> set (after_hooks t) = {}
        \<or> last (invoked (run_transition t cbs (st, s))) \<in> set (after_hooks t))"
proof -
  obtain r1 tr1 where b: "run_hooks st cbs (before_hooks t) s = (r1, tr1)"
    by (cases "run_hooks st cbs (before_hooks t) s")
  have dist: "set (before_hooks t) \<inter> set (after_hooks t) = {}"
    using hooks_distinct [of t] by simp
  show ?thesis
  proof (cases r1)
    case (Raised e1 s1)
    then have r: "run_transition t cbs (st, s)
        = \<lparr>error = Some e1, status_after = st, state_after = s1, invoked = tr1\<rparr>"
      using b by (simp add: run_transition_def)
    have b1: "run_hooks st cbs (before_hooks t) s = (Raised e1 s1, tr1)"
      using b Raised by simp
    obtain k where k: "k < length (before_hooks t)" "tr1 = take (Suc k) (before_hooks t)"
      using run_hooks_raised [OF b1] by blast
    then have p: "k < length (before_hooks t @ after_hooks t)
        \<and> tr1 = take (Suc k) (before_hooks t @ after_hooks t)"
      by simp
    have "set tr1 \<subseteq> set (before_hooks t)" using k by (simp add: set_take_subset)
    then have "set tr1 \<inter> set (after_hooks t) = {}" using dist by blast
    then show ?thesis using r p by auto
  next
    case (Returned s1)
    then have b1: "run_hooks st cbs (before_hooks t) s = (Returned s1, tr1)"
      using b by simp
    have tr1: "tr1 = before_hooks t" using run_hooks_returned [OF b1] .
    obtain r2 tr2 where a: "run_hooks (terminal_status t st) cbs (after_hooks t) s1 = (r2, tr2)"
      by (cases "run_hooks (terminal_status t st) cbs (after_hooks t) s1")
    show ?thesis
    proof (cases r2)
      case (Raised e2 s2)
      then have r: "run_transition t cbs (st, s)
          = \<lparr>error = Some e2, status_after = st, state_after = s2, invoked = tr1 @ tr2\<rparr>"
        using b a Returned by (simp add: run_transition_def)
      have a1: "run_hooks (terminal_status t st) cbs (after_hooks t) s1 = (Raised e2 s2, tr2)"
        using a Raised by simp
      obtain k where k: "k < length (after_hooks t)" "tr2 = take (Suc k) (after_hooks t)"
        using run_hooks_raised [OF a1] by blast
      have p: "length (before_hooks t) + k < length (before_hooks t @ after_hooks t)
          \<and> tr1 @ tr2 = take (Suc (length (before_hooks t) + k)) (before_hooks t @ after_hooks t)"
        using k tr1 by simp
      have "tr2 \<noteq> [] \<and> last tr2 \<in> set (after_hooks t)"
        using run_hooks_raised_subset [OF a1] by simp
      then have la: "last (tr1 @ tr2) \<in> set (after_hooks t)" by simp
      have c1: "status_after (run_transition t cbs (st, s)) = st" using r by simp
      have inv: "invoked (run_transition t cbs (st, s)) = tr1 @ tr2" using r by simp
      have c2: "\<exists>k < length (before_hooks t @ after_hooks t).
         invoked (run_transition t cbs (st, s)) = take (Suc k) (before_hooks t @ after_hooks t)"
        unfolding inv using p by blast
      have c3: "last (invoked (run_transition t cbs (st, s))) \<in> set (after_hooks t)"
        unfolding inv using la .
      show ?thesis using c1 c2 c3 by blast
    next
      case (Returned s2)
      then have "error (run_transition t cbs (st, s)) = None"
        using b a \<open>r1 = Returned s1\<close> by (simp add: run_transition_def)
      then show ?thesis using err by simp
    qed
  qed
qed

lemma validate_aborts_transition:
  assumes "before_hooks t = pre @ h # post"
    and "fst (run_hooks st cbs pre w0) = Returned w"
    and "callbacks_at cbs h = validate_hook ev # cs"
    and "validate ev (doc w) = Raised e d'"
  shows "run_transition t cbs (st, w0)
           = \<lparr>error = Some e, status_after = st, state_after = w\<lparr>doc := d'\<rparr>,
              invoked = pre @ [h]\<rparr>"
  using run_transition_callback_raises [OF assms(1-3) validate_hook_raises [OF assms(4)]] .

lemma example_callbacks_at:
  "callbacks_at example_callbacks Validate = [validate_hook example_env]"
  "callbacks_at example_callbacks Before_Submit = [validate_hook example_env]"
  "callbacks_at example_callbacks Validate_For_Submit = []"
  "callbacks_at example_callbacks On_Submit = [on_submit example_methods]"
  "callbacks_at example_callbacks Before_Save = []"
  "callbacks_at example_callbacks On_Update = []"
  "callbacks_at example_callbacks On_Trash = []"
  "callbacks_at example_callbacks After_Delete = []"
  by (simp_all add: callbacks_at_def example_callbacks_def)

lemma raising_callbacks_at:
  "callbacks_at raising_callbacks Validate = [validate_hook example_env]"
  "callbacks_at raising_callbacks Before_Submit = [validate_hook example_env]"
  "callbacks_at raising_callbacks Validate_For_Submit = []"
  "callbacks_at raising_callbacks On_Submit = [on_submit raising_methods]"
  by (simp_all add: callbacks_at_def raising_callbacks_def)

lemma validate_examples:
  "validate example_env zero_qty_doc
     = Raised (throw ''Quantity must be greater than 0 for item {0}'' [Str ''ITEM-0''])
         zero_qty_doc"
  "validate example_env short_doc
     = Raised (throw ''Insufficient stock for item {0}. Available: {1}, Required: {2}''
                [Str ''ITEM-3'', Num (PyInt 3), Num (PyInt 5)]) (calculate_totals short_doc)"
  "validate example_env example_doc = Returned (calculate_totals example_doc)"
  "validate example_env no_warehouse_doc = Returned (calculate_totals no_warehouse_doc)"
  by (simp_all add: validate_quantities_raises validate_stock_raises validate_returns
      example_checks)

text \<open>
  Claim C1 (as amended). \<open>calculate_totals\<close> sets the amount of every child row, in
  row order, to the float product of \<open>flt(qty)\<close> and \<open>flt(rate)\<close>; \<open>total_qty\<close> is the
  float sum, accumulated from 0 in row order, of \<open>flt(qty)\<close>, and \<open>total_amount\<close> that
  of the amounts; a tax row gets \<open>tax_amount = flt(total_amount) * flt(rate) / 100\<close> in
  float arithmetic when its charge type is "On Net Total" and keeps its pre-set
  \<open>tax_amount\<close> when it is "Actual"; \<open>total_tax\<close> is the float sum, accumulated from 0
  in row order, of \<open>flt(tax_amount)\<close>, and \<open>grand_total\<close> is the float sum of
  \<open>total_amount\<close> and \<open>total_tax\<close>. For items (2, 100), (1, 50) and one "On Net Total"
  tax row of rate 10 the totals are exactly 250, 25 and 275.
\<close>

theorem calculate_totals_spec:
  "items (calculate_totals d)
     = map (\<lambda>i. i\<lparr>amount := fmul (flt (qty i)) (flt (item.rate i))\<rparr>) (items d)
   \<and> total_qty (calculate_totals d)
       = foldl fadd (Finite 0) (map (\<lambda>i. flt (qty i)) (items d))
   \<and> total_amount (calculate_totals d)
       = foldl fadd (Finite 0) (map amount (items (calculate_totals d)))
   \<and> length (taxes (calculate_totals d)) = length (taxes d)
   \<and> (\<forall>k < length (taxes d).
         (charge_type (taxes d ! k) = ''On Net Total'' \<longrightarrow>
            tax_amount (taxes (calculate_totals d) ! k)
              = PyFloat (div_100 (fmul (flt (PyFloat (total_amount (calculate_totals d))))
                                       (flt (tax.rate (taxes d ! k))))))
       \<and> (charge_type (taxes d ! k) = ''Actual'' \<longrightarrow>
            tax_amount (taxes (calculate_totals d) ! k) = tax_amount (taxes d ! k)))
   \<and> total_tax (calculate_totals d)
       = foldl fadd (Finite 0) (map (\<lambda>t. flt (tax_amount t)) (taxes (calculate_totals d)))
   \<and> grand_total (calculate_totals d)
        = fadd (total_amount (calculate_totals d)) (total_tax (calculate_totals d))
   \<and> (items d = [i1, i2] \<and> flt (qty i1) = Finite 2 \<and> flt (item.rate i1) = Finite 100
        \<and> flt (qty i2) = Finite 1 \<and> flt (item.rate i2) = Finite 50
        \<and> taxes d = [t] \<and> charge_type t = ''On Net Total'' \<and> flt (tax.rate t) = Finite 10
       \<longrightarrow> total_amount (calculate_totals d) = Finite 250
           \<and> total_tax (calculate_totals d) = Finite 25
           \<and> grand_total (calculate_totals d) = Finite 275)"
proof -
  let ?d = "calculate_totals d"
  have rows: "items ?d
      = map (\<lambda>i. i\<lparr>amount := fmul (flt (qty i)) (flt (item.rate i))\<rparr>) (items d)"
    by (simp add: items_calculate_totals calculate_totals_row_def)
  have tq: "total_qty ?d = foldl fadd (Finite 0) (map (\<lambda>i. flt (qty i)) (items d))"
    by (rule total_qty_calculate_totals)
  have ta: "total_amount ?d = foldl fadd (Finite 0) (map amount (items ?d))"
    by (simp only: total_amount_calculate_totals items_calculate_totals amount_rows)
  have len: "length (taxes ?d) = length (taxes d)"
    by (simp add: taxes_calculate_totals)
  have row: "\<forall>k < length (taxes d).
         (charge_type (taxes d ! k) = ''On Net Total'' \<longrightarrow>
            tax_amount (taxes ?d ! k)
              = PyFloat (div_100 (fmul (flt (PyFloat (total_amount ?d)))
                                       (flt (tax.rate (taxes d ! k))))))
       \<and> (charge_type (taxes d ! k) = ''Actual'' \<longrightarrow>
            tax_amount (taxes ?d ! k) = tax_amount (taxes d ! k))"
    by (simp add: taxes_calculate_totals [of d] calculate_taxes_row_def)
  have tt: "total_tax ?d = foldl fadd (Finite 0) (map (\<lambda>t. flt (tax_amount t)) (taxes ?d))"
    by (rule total_tax_calculate_totals)
  have gt: "grand_total ?d = fadd (total_amount ?d) (total_tax ?d)"
    by (rule grand_total_calculate_totals)
  have ex: "items d = [i1, i2] \<and> flt (qty i1) = Finite 2 \<and> flt (item.rate i1) = Finite 100
        \<and> flt (qty i2) = Finite 1 \<and> flt (item.rate i2) = Finite 50
        \<and> taxes d = [t] \<and> charge_type t = ''On Net Total'' \<and> flt (tax.rate t) = Finite 10
       \<longrightarrow> total_amount ?d = Finite 250 \<and> total_tax ?d = Finite 25
           \<and> grand_total ?d = Finite 275"
  proof
    assume a: "items d = [i1, i2] \<and> flt (qty i1) = Finite 2 \<and> flt (item.rate i1) = Finite 100
        \<and> flt (qty i2) = Finite 1 \<and> flt (item.rate i2) = Finite 50
        \<and> taxes d = [t] \<and> charge_type t = ''On Net Total'' \<and> flt (tax.rate t) = Finite 10"
    have 1: "total_amount ?d = Finite 250"
      using a by (simp add: total_amount_calculate_totals round_double_examples)
    have 2: "total_tax ?d = Finite 25"
      using a 1
      by (simp add: tt taxes_calculate_totals [of d] calculate_taxes_row_def
          round_double_examples)
    have 3: "grand_total ?d = Finite 275"
      using 1 2 gt by (simp add: round_double_examples)
    show "total_amount ?d = Finite 250 \<and> total_tax ?d = Finite 25
        \<and> grand_total ?d = Finite 275"
      using 1 2 3 by simp
  qed
  show ?thesis using rows tq ta len row tt gt ex by blast
qed

theorem calculate_totals_spec_witness:
  "total_amount (calculate_totals example_doc) = Finite 250
   \<and> total_tax (calculate_totals example_doc) = Finite 25
   \<and> grand_total (calculate_totals example_doc) = Finite 275
   \<and> charge_type (taxes mixed_tax_doc ! 1) = ''Actual''
   \<and> tax_amount (taxes (calculate_totals mixed_tax_doc) ! 1) = PyInt 7"
proof -
  have h: "items example_doc = [example_item1, example_item2]
      \<and> flt (qty example_item1) = Finite 2 \<and> flt (item.rate example_item1) = Finite 100
      \<and> flt (qty example_item2) = Finite 1 \<and> flt (item.rate example_item2) = Finite 50
      \<and> taxes example_doc = [example_tax] \<and> charge_type example_tax = ''On Net Total''
      \<and> flt (tax.rate example_tax) = Finite 10"
    by (simp add: example_doc_def example_item1_def example_item2_def example_tax_def
        round_double_examples)
  have a: "total_amount (calculate_totals example_doc) = Finite 250
      \<and> total_tax (calculate_totals example_doc) = Finite 25
      \<and> grand_total (calculate_totals example_doc) = Finite 275"
    using calculate_totals_spec [of example_doc example_item1 example_item2 example_tax] h
    by blast
  have len: "1 < length (taxes mixed_tax_doc)"
    and ct: "charge_type (taxes mixed_tax_doc ! 1) = ''Actual''"
    and ta: "tax_amount (taxes mixed_tax_doc ! 1) = PyInt 7"
    by (simp_all add: mixed_tax_doc_def actual_tax_def)
  have "\<forall>k < length (taxes mixed_tax_doc).
         charge_type (taxes mixed_tax_doc ! k) = ''Actual'' \<longrightarrow>
            tax_amount (taxes (calculate_totals mixed_tax_doc) ! k)
              = tax_amount (taxes mixed_tax_doc ! k)"
    using calculate_totals_spec [of mixed_tax_doc example_item1 example_item2 example_tax]
    by blast
  then have b: "tax_amount (taxes (calculate_totals mixed_tax_doc) ! 1) = PyInt 7"
    using len ct ta by auto
  show ?thesis using a ct b by simp
qed

text \<open>
  The claim as stated, with exact products and sums, fails on the code's floats. A
  quantity that is the int \<open>2 ^ 53 + 1\<close> is read by \<open>flt\<close> as the float \<open>2 ^ 53\<close>, so
  \<open>total_qty\<close> is not the sum of the quantities; and for a net total of 1 and a rate of
  7 the tax amount is the float nearest to 0.07, which is not \<open>1 * 7 / 100\<close>.
\<close>

theorem calculate_totals_counterexample:
  "map qty (items big_qty_doc) = [PyInt (2 ^ 53 + 1)]
   \<and> total_qty (calculate_totals big_qty_doc) = Finite (2 ^ 53)
   \<and> total_amount (calculate_totals seven_percent_doc) = Finite 1
   \<and> map tax.rate (taxes seven_percent_doc) = [PyInt 7]
   \<and> map tax_amount (taxes (calculate_totals seven_percent_doc))
       = [PyFloat (Finite (1261007895663739 / 2 ^ 54))]
   \<and> (1261007895663739 / 2 ^ 54 :: rat) \<noteq> 1 * 7 / 100"
proof -
  have a: "map qty (items big_qty_doc) = [PyInt (2 ^ 53 + 1)]"
    by (simp add: big_qty_doc_def)
  have b: "total_qty (calculate_totals big_qty_doc) = Finite (2 ^ 53)"
    by code_simp
  have c: "total_amount (calculate_totals seven_percent_doc) = Finite 1"
    by code_simp
  have d: "map tax.rate (taxes seven_percent_doc) = [PyInt 7]"
    by (simp add: seven_percent_doc_def)
  have e: "map tax_amount (taxes (calculate_totals seven_percent_doc))
       = [PyFloat (Finite (1261007895663739 / 2 ^ 54))]"
    by code_simp
  have f: "(1261007895663739 / 2 ^ 54 :: rat) \<noteq> 1 * 7 / 100"
    by simp
  show ?thesis using a b c d e f by blast
qed

text \<open>
  Claim C4 (as amended). On the document that \<open>calculate_totals\<close> returns,
  \<open>grand_total\<close> is the float sum of \<open>total_amount\<close> and \<open>total_tax\<close>, and the
  comparison \<^verbatim>\<open>grand_total == total_amount + total_tax\<close> is true exactly when that sum
  is not NaN.
\<close>

theorem grand_total_after_calculate_totals:
  "grand_total (calculate_totals d)
     = fadd (total_amount (calculate_totals d)) (total_tax (calculate_totals d))
   \<and> (float_eq (grand_total (calculate_totals d))
                (fadd (total_amount (calculate_totals d)) (total_tax (calculate_totals d)))
        \<longleftrightarrow> grand_total (calculate_totals d) \<noteq> NaN)"
  using grand_total_calculate_totals [of d] by (simp add: float_eq_def)

theorem grand_total_after_calculate_totals_witness:
  "grand_total (calculate_totals example_doc) = Finite 275
   \<and> float_eq (grand_total (calculate_totals example_doc))
        (fadd (total_amount (calculate_totals example_doc))
              (total_tax (calculate_totals example_doc)))"
proof -
  have g: "grand_total (calculate_totals example_doc) = Finite 275"
    by (simp add: calculate_totals_example_doc)
  then have ne: "grand_total (calculate_totals example_doc) \<noteq> NaN" by simp
  have "float_eq (grand_total (calculate_totals example_doc))
        (fadd (total_amount (calculate_totals example_doc))
              (total_tax (calculate_totals example_doc)))"
    using grand_total_after_calculate_totals [of example_doc] ne by blast
  then show ?thesis using g by blast
qed

text \<open>
  The equation as stated fails when the sum is NaN. With quantity and rate \<open>2 ^ 600\<close>
  the amount overflows to infinity, a tax row of rate 0 then has the tax amount
  infinity times 0, which is NaN, and the comparison of \<open>grand_total\<close> with
  \<open>total_amount + total_tax\<close> is false. The document passes \<open>validate\<close>.
\<close>

theorem grand_total_counterexample:
  "total_amount (calculate_totals nan_doc) = PosInf
   \<and> total_tax (calculate_totals nan_doc) = NaN
   \<and> grand_total (calculate_totals nan_doc) = NaN
   \<and> \<not> float_eq (grand_total (calculate_totals nan_doc))
          (fadd (total_amount (calculate_totals nan_doc)) (total_tax (calculate_totals nan_doc)))
   \<and> validate example_env nan_doc = Returned (calculate_totals nan_doc)"
proof -
  have a: "total_amount (calculate_totals nan_doc) = PosInf"
    by code_simp
  have b: "total_tax (calculate_totals nan_doc) = NaN"
    by code_simp
  have c: "grand_total (calculate_totals nan_doc) = NaN"
    using grand_total_calculate_totals [of nan_doc] a b by simp
  have d: "validate_required_fields nan_doc = Inr ()"
    "validate_dates example_env nan_doc = Inr ()"
    "validate_quantities nan_doc = Inr ()"
    "validate_against_stock example_env nan_doc = Inr ()"
    by code_simp+
  have e: "validate example_env nan_doc = Returned (calculate_totals nan_doc)"
    using d by (rule validate_returns)
  show ?thesis using a b c e by (simp add: float_eq_def)
qed

text \<open>
  Claim C2 (as amended). \<open>validate\<close> runs its steps in the order required fields, dates,
  quantities and rates, totals, stock. The first check that fails ends it and nothing
  later runs: a failure of one of the first three checks leaves the document as it was,
  and a failure of the stock check leaves it with the totals computed. The totals
  computation itself never fails.
\<close>

theorem validate_order:
  "(validate_required_fields d = Inl e \<longrightarrow> validate ev d = Raised e d)
   \<and> (validate_required_fields d = Inr () \<and> validate_dates ev d = Inl e
        \<longrightarrow> validate ev d = Raised e d)
   \<and> (validate_required_fields d = Inr () \<and> validate_dates ev d = Inr ()
        \<and> validate_quantities d = Inl e
        \<longrightarrow> validate ev d = Raised e d)
   \<and> (validate_required_fields d = Inr () \<and> validate_dates ev d = Inr ()
        \<and> validate_quantities d = Inr ()
        \<and> validate_against_stock ev (calculate_totals d) = Inl e
        \<longrightarrow> validate ev d = Raised e (calculate_totals d))
   \<and> (validate_required_fields d = Inr () \<and> validate_dates ev d = Inr ()
        \<and> validate_quantities d = Inr ()
        \<and> validate_against_stock ev (calculate_totals d) = Inr ()
        \<longrightarrow> validate ev d = Returned (calculate_totals d))"
  by (simp add: validate_def Let_def)

theorem validate_order_witness:
  "validate example_env no_customer_doc
     = Raised (throw ''Customer is required'' []) no_customer_doc
   \<and> validate example_env late_doc
     = Raised (throw ''From Date cannot be after To Date'' []) late_doc
   \<and> validate example_env zero_qty_doc
     = Raised (throw ''Quantity must be greater than 0 for item {0}'' [Str ''ITEM-0''])
         zero_qty_doc
   \<and> validate example_env short_doc
     = Raised (throw ''Insufficient stock for item {0}. Available: {1}, Required: {2}''
                [Str ''ITEM-3'', Num (PyInt 3), Num (PyInt 5)]) (calculate_totals short_doc)
   \<and> validate example_env example_doc = Returned (calculate_totals example_doc)"
  using validate_order [of no_customer_doc "throw ''Customer is required'' []" example_env]
    validate_order [of late_doc "throw ''From Date cannot be after To Date'' []" example_env]
    validate_order [of zero_qty_doc
      "throw ''Quantity must be greater than 0 for item {0}'' [Str ''ITEM-0'']" example_env]
    validate_order [of short_doc
      "throw ''Insufficient stock for item {0}. Available: {1}, Required: {2}''
         [Str ''ITEM-3'', Num (PyInt 3), Num (PyInt 5)]" example_env]
    validate_order [of example_doc "throw [] []" example_env]
  by (simp add: example_checks validate_against_stock_calculate_totals)

text \<open>
  The order the claim states (stock before totals) is not the order of the code: on a
  document whose only failing check is the stock check, \<open>validate\<close> raises with the
  totals already written (50 where the document had 0), while in the order stated the
  totals would not have been touched.
\<close>

theorem validate_order_counterexample:
  "validate example_env short_doc
     = Raised (throw ''Insufficient stock for item {0}. Available: {1}, Required: {2}''
                [Str ''ITEM-3'', Num (PyInt 3), Num (PyInt 5)]) (calculate_totals short_doc)
   \<and> total_amount (calculate_totals short_doc) = Finite 50
   \<and> total_amount short_doc = Finite 0
   \<and> validate_spec_order example_env short_doc
     = Raised (throw ''Insufficient stock for item {0}. Available: {1}, Required: {2}''
                [Str ''ITEM-3'', Num (PyInt 3), Num (PyInt 5)]) short_doc
   \<and> validate example_env short_doc \<noteq> validate_spec_order example_env short_doc"
proof -
  have v: "validate example_env short_doc
     = Raised (throw ''Insufficient stock for item {0}. Available: {1}, Required: {2}''
                [Str ''ITEM-3'', Num (PyInt 3), Num (PyInt 5)]) (calculate_totals short_doc)"
    by (simp add: validate_examples)
  have t1: "total_amount (calculate_totals short_doc) = Finite 50"
    by code_simp
  have t0: "total_amount short_doc = Finite 0"
    by (simp add: short_doc_def example_doc_def)
  have s: "validate_spec_order example_env short_doc
     = Raised (throw ''Insufficient stock for item {0}. Available: {1}, Required: {2}''
                [Str ''ITEM-3'', Num (PyInt 3), Num (PyInt 5)]) short_doc"
    by (simp add: validate_spec_order_def example_checks)
  have "calculate_totals short_doc \<noteq> short_doc"
    using t1 t0 by auto
  then show ?thesis using v t1 t0 s by simp
qed

text \<open>
  Claim C3 (as amended). On a document that passes the required-field and date checks
  and has a child row with qty = 0, \<open>validate\<close> fails inside \<open>validate_quantities\<close>
  with a validation error and leaves the document as it was. In a transition whose
  earlier hook points return and which then runs \<open>validate\<close> on that document (at
  hook point h, which is validate for insert and save), the transition fails with that
  error, the status is not advanced, and the hook points invoked end with h: no later
  hook point of the transition is invoked.
\<close>

theorem zero_qty_aborts_transition:
  assumes "validate_required_fields d = Inr ()" and "validate_dates ev d = Inr ()"
    and "i \<in> set (items d)" and "flt (qty i) = Finite 0"
    and "before_hooks t = pre @ h # post"
    and "fst (run_hooks st cbs pre w0) = Returned w"
    and "callbacks_at cbs h = validate_hook ev # cs"
    and "doc w = d"
  shows "\<exists>e. validate_quantities d = Inl e
           \<and> class_of e = Validation
           \<and> validate ev d = Raised e d
           \<and> run_transition t cbs (st, w0)
               = \<lparr>error = Some e, status_after = st, state_after = w, invoked = pre @ [h]\<rparr>
           \<and> set (invoked (run_transition t cbs (st, w0))) \<inter> set (post @ after_hooks t) = {}"
proof -
  have "float_le (flt (qty i)) (Finite 0)" using assms(4) by simp
  from validate_quantities_loop_zero [OF assms(3) this]
  obtain e where e: "validate_quantities d = Inl e" and c: "class_of e = Validation"
    by (auto simp: validate_quantities_def throw_def)
  have v: "validate ev d = Raised e d"
    using validate_quantities_raises [OF assms(1,2) e] .
  then have "validate ev (doc w) = Raised e d" using assms(8) by simp
  from validate_aborts_transition [OF assms(5-7) this]
  have r: "run_transition t cbs (st, w0)
      = \<lparr>error = Some e, status_after = st, state_after = w, invoked = pre @ [h]\<rparr>"
    using assms(8) by simp
  have "set (invoked (run_transition t cbs (st, w0))) \<inter> set (post @ after_hooks t) = {}"
    using before_prefix_no_later [OF assms(5)] r by simp
  then show ?thesis using e c v r by blast
qed

theorem zero_qty_aborts_transition_witness:
  "validate_required_fields zero_qty_doc = Inr ()
   \<and> validate_dates example_env zero_qty_doc = Inr ()
   \<and> zero_item \<in> set (items zero_qty_doc) \<and> flt (qty zero_item) = Finite 0
   \<and> before_hooks Save = [] @ Validate # [Before_Save]
   \<and> callbacks_at example_callbacks Validate = validate_hook example_env # []
   \<and> (\<exists>e. validate_quantities zero_qty_doc = Inl e
           \<and> class_of e = Validation
           \<and> validate example_env zero_qty_doc = Raised e zero_qty_doc
           \<and> run_transition Save example_callbacks (Draft, \<lparr>doc = zero_qty_doc, ledger = []\<rparr>)
               = \<lparr>error = Some e, status_after = Draft,
                  state_after = \<lparr>doc = zero_qty_doc, ledger = []\<rparr>, invoked = [Validate]\<rparr>
           \<and> set (invoked (run_transition Save example_callbacks
                      (Draft, \<lparr>doc = zero_qty_doc, ledger = []\<rparr>)))
                \<inter> set ([Before_Save] @ after_hooks Save) = {})"
proof -
  have h1: "validate_required_fields zero_qty_doc = Inr ()"
    and h2: "validate_dates example_env zero_qty_doc = Inr ()"
    by (simp_all add: example_checks)
  have h3: "zero_item \<in> set (items zero_qty_doc)" by (simp add: zero_qty_doc_def)
  have h4: "flt (qty zero_item) = Finite 0" by (simp add: zero_item_def round_double_zero)
  have h5: "before_hooks Save = [] @ Validate # [Before_Save]" by simp
  have h6: "fst (run_hooks Draft example_callbacks [] \<lparr>doc = zero_qty_doc, ledger = []\<rparr>)
      = Returned \<lparr>doc = zero_qty_doc, ledger = []\<rparr>"
    by simp
  have h7: "callbacks_at example_callbacks Validate = validate_hook example_env # []"
    by (simp add: example_callbacks_at)
  have h8: "doc \<lparr>doc = zero_qty_doc, ledger = []\<rparr> = zero_qty_doc" by simp
  show ?thesis
    using zero_qty_aborts_transition [OF h1 h2 h3 h4 h5 h6 h7 h8] h1 h2 h3 h4 h5 h7
    by simp
qed

text \<open>
  The claim as stated fails twice. A document with a qty = 0 row and no customer fails
  at \<open>validate_required_fields\<close>, with "Customer is required", before
  \<open>validate_quantities\<close> is reached. And a transition whose order has no validate hook
  point (delete) goes through on a document with a qty = 0 row.
\<close>

theorem zero_qty_counterexample:
  "qty (items no_customer_doc ! 1) = PyInt 0
   \<and> validate example_env no_customer_doc
       = Raised (throw ''Customer is required'' []) no_customer_doc
   \<and> validate_quantities no_customer_doc
       = Inl (throw ''Quantity must be greater than 0 for item {0}'' [Str ''ITEM-0''])
   \<and> qty (items zero_qty_doc ! 1) = PyInt 0
   \<and> run_transition Delete example_callbacks (Draft, \<lparr>doc = zero_qty_doc, ledger = []\<rparr>)
       = \<lparr>error = None, status_after = Draft,
          state_after = \<lparr>doc = zero_qty_doc, ledger = []\<rparr>,
          invoked = [On_Trash, After_Delete]\<rparr>"
proof -
  have a: "qty (items no_customer_doc ! 1) = PyInt 0" "qty (items zero_qty_doc ! 1) = PyInt 0"
    by (simp_all add: no_customer_doc_def zero_qty_doc_def zero_item_def)
  have b: "validate example_env no_customer_doc
       = Raised (throw ''Customer is required'' []) no_customer_doc"
    by (simp add: validate_def example_checks)
  have c: "run_transition Delete example_callbacks (Draft, \<lparr>doc = zero_qty_doc, ledger = []\<rparr>)
       = \<lparr>error = None, status_after = Draft,
          state_after = \<lparr>doc = zero_qty_doc, ledger = []\<rparr>,
          invoked = [On_Trash, After_Delete]\<rparr>"
    by (simp add: run_transition_def example_callbacks_at)
  show ?thesis using a b c by (simp add: example_checks)
qed

text \<open>
  Claim C5 (as amended). On a document that passes the required-field, date and quantity
  checks and has a child row with a warehouse set whose qty exceeds the stock balance
  reported for it, \<open>validate\<close> fails in the stock check, after the totals are written:
  either with the validation error "Insufficient stock" raised with
  \<^verbatim>\<open>frappe.throw\<close> like every other check (for that row or an earlier one), or with
  the error the stock lookup itself raised. In a transition whose earlier hook points
  return and which then runs \<open>validate\<close> on that document before the persist step, the
  transition fails with that error, the status is unchanged, no hook after the persist
  step (so not \<open>on_submit\<close> with its \<open>make_gl_entries\<close>) is invoked, and the ledger
  is as it was when \<open>validate\<close> started.
\<close>

theorem insufficient_stock_aborts_transition:
  assumes "validate_required_fields d = Inr ()" and "validate_dates ev d = Inr ()"
    and "validate_quantities d = Inr ()"
    and "i \<in> set (items d)" and "warehouse i = Some wh" and "wh \<noteq> []"
    and "get_stock_balance ev (item_code i) wh = Inr a" and "num_lt a (qty i)"
    and "before_hooks t = pre @ h # post"
    and "fst (run_hooks st cbs pre w0) = Returned w"
    and "callbacks_at cbs h = validate_hook ev # cs"
    and "doc w = d"
  shows "\<exists>e. validate ev d = Raised e (calculate_totals d)
           \<and> ((\<exists>code b q. num_lt b q \<and> class_of e = Validation
                  \<and> e = throw ''Insufficient stock for item {0}. Available: {1}, Required: {2}''
                          [Str code, Num b, Num q])
              \<or> (\<exists>j \<in> set (items d). \<exists>w'. get_stock_balance ev (item_code j) w' = Inl e))
           \<and> run_transition t cbs (st, w0)
               = \<lparr>error = Some e, status_after = st,
                  state_after = w\<lparr>doc := calculate_totals d\<rparr>, invoked = pre @ [h]\<rparr>
           \<and> set (invoked (run_transition t cbs (st, w0))) \<inter> set (after_hooks t) = {}
           \<and> ledger (state_after (run_transition t cbs (st, w0))) = ledger w"
proof -
  have pos: "num_truthy (qty i)"
    using validate_quantities_loop_pos [of "items d" i] assms(3,4) positive_qty_truthy
    by (simp add: validate_quantities_def)
  from stock_loop_fails [OF assms(4-6) pos assms(7,8)]
  obtain e where e: "validate_against_stock ev d = Inl e"
    and alt: "(\<exists>code b q. e = throw ''Insufficient stock for item {0}. Available: {1}, Required: {2}''
                   [Str code, Num b, Num q] \<and> num_lt b q)
              \<or> (\<exists>j \<in> set (items d). \<exists>w'. get_stock_balance ev (item_code j) w' = Inl e)"
    unfolding validate_against_stock_def by blast
  have alt': "(\<exists>code b q. num_lt b q \<and> class_of e = Validation
                  \<and> e = throw ''Insufficient stock for item {0}. Available: {1}, Required: {2}''
                          [Str code, Num b, Num q])
              \<or> (\<exists>j \<in> set (items d). \<exists>w'. get_stock_balance ev (item_code j) w' = Inl e)"
    using alt by (auto simp: throw_def)
  have v: "validate ev d = Raised e (calculate_totals d)"
    using validate_stock_raises [OF assms(1-3) e] .
  then have "validate ev (doc w) = Raised e (calculate_totals d)" using assms(12) by simp
  from validate_aborts_transition [OF assms(9-11) this]
  have r: "run_transition t cbs (st, w0)
      = \<lparr>error = Some e, status_after = st, state_after = w\<lparr>doc := calculate_totals d\<rparr>,
         invoked = pre @ [h]\<rparr>" .
  have "set (pre @ [h]) \<inter> set (after_hooks t) = {}"
    using before_prefix_no_later [OF assms(9)] by auto
  then have n: "set (invoked (run_transition t cbs (st, w0))) \<inter> set (after_hooks t) = {}"
    using r by simp
  have l: "ledger (state_after (run_transition t cbs (st, w0))) = ledger w"
    using r by simp
  show ?thesis using v alt' r n l by blast
qed

theorem insufficient_stock_aborts_transition_witness:
  "validate_required_fields short_doc = Inr ()
   \<and> validate_dates example_env short_doc = Inr ()
   \<and> validate_quantities short_doc = Inr ()
   \<and> stocked_item \<in> set (items short_doc) \<and> warehouse stocked_item = Some ''Stores''
   \<and> get_stock_balance example_env (item_code stocked_item) ''Stores'' = Inr (PyInt 3)
   \<and> num_lt (PyInt 3) (qty stocked_item)
   \<and> before_hooks Submit = [] @ Before_Submit # [Validate_For_Submit]
   \<and> callbacks_at example_callbacks Before_Submit = validate_hook example_env # []
   \<and> (\<exists>e. validate example_env short_doc = Raised e (calculate_totals short_doc)
         \<and> run_transition Submit example_callbacks (Draft, \<lparr>doc = short_doc, ledger = []\<rparr>)
               = \<lparr>error = Some e, status_after = Draft,
                  state_after = \<lparr>doc = calculate_totals short_doc, ledger = []\<rparr>,
                  invoked = [Before_Submit]\<rparr>)"
proof -
  have h1: "validate_required_fields short_doc = Inr ()"
    and h2: "validate_dates example_env short_doc = Inr ()"
    and h3: "validate_quantities short_doc = Inr ()"
    by (simp_all add: example_checks)
  have h4: "stocked_item \<in> set (items short_doc)" by (simp add: short_doc_def)
  have h5: "warehouse stocked_item = Some ''Stores''" by (simp add: stocked_item_def)
  have h6: "''Stores'' \<noteq> []" by simp
  have h7: "get_stock_balance example_env (item_code stocked_item) ''Stores'' = Inr (PyInt 3)"
    by (simp add: example_env_def)
  have h8: "num_lt (PyInt 3) (qty stocked_item)" by (simp add: stocked_item_def num_lt_def)
  have h9: "before_hooks Submit = [] @ Before_Submit # [Validate_For_Submit]" by simp
  have h10: "fst (run_hooks Draft example_callbacks [] \<lparr>doc = short_doc, ledger = []\<rparr>)
      = Returned \<lparr>doc = short_doc, ledger = []\<rparr>"
    by simp
  have h11: "callbacks_at example_callbacks Before_Submit = validate_hook example_env # []"
    by (simp add: example_callbacks_at)
  have h12: "doc \<lparr>doc = short_doc, ledger = []\<rparr> = short_doc" by simp
  show ?thesis
    using insufficient_stock_aborts_transition
      [OF h1 h2 h3 h4 h5 h6 h7 h8 h9 h10 h11 h12] h1 h2 h3 h4 h5 h7 h8 h9 h11
    by auto
qed

text \<open>
  The claim as stated fails twice. A row with no warehouse is not checked against the
  stock: with 5 units asked for and 3 available, \<open>validate\<close> returns, the submit goes
  through and the ledger is posted. And when the stock check does fail for lack of
  stock, the error is of the validation class, not of the external-dependency class.
\<close>

theorem insufficient_stock_counterexample:
  "qty (items no_warehouse_doc ! 0) = PyInt 5
   \<and> get_stock_balance example_env (item_code (items no_warehouse_doc ! 0)) ''Stores''
       = Inr (PyInt 3)
   \<and> validate example_env no_warehouse_doc = Returned (calculate_totals no_warehouse_doc)
   \<and> run_transition Submit example_callbacks (Draft, \<lparr>doc = no_warehouse_doc, ledger = []\<rparr>)
       = \<lparr>error = None, status_after = Submitted,
          state_after = \<lparr>doc = calculate_totals no_warehouse_doc,
                         ledger = [(gl_entries (calculate_totals no_warehouse_doc), False)]\<rparr>,
          invoked = [Before_Submit, Validate_For_Submit, On_Submit]\<rparr>
   \<and> validate example_env short_doc
       = Raised (throw ''Insufficient stock for item {0}. Available: {1}, Required: {2}''
                  [Str ''ITEM-3'', Num (PyInt 3), Num (PyInt 5)]) (calculate_totals short_doc)
   \<and> class_of (throw ''Insufficient stock for item {0}. Available: {1}, Required: {2}''
                  [Str ''ITEM-3'', Num (PyInt 3), Num (PyInt 5)]) = Validation
   \<and> Validation \<noteq> ExternalDependency"
proof -
  have a: "qty (items no_warehouse_doc ! 0) = PyInt 5"
    "get_stock_balance example_env (item_code (items no_warehouse_doc ! 0)) ''Stores''
       = Inr (PyInt 3)"
    by (simp_all add: no_warehouse_doc_def stocked_item_def example_env_def)
  have b: "validate example_env no_warehouse_doc = Returned (calculate_totals no_warehouse_doc)"
    by (simp add: validate_examples)
  have c: "run_transition Submit example_callbacks (Draft, \<lparr>doc = no_warehouse_doc, ledger = []\<rparr>)
       = \<lparr>error = None, status_after = Submitted,
          state_after = \<lparr>doc = calculate_totals no_warehouse_doc,
                         ledger = [(gl_entries (calculate_totals no_warehouse_doc), False)]\<rparr>,
          invoked = [Before_Submit, Validate_For_Submit, On_Submit]\<rparr>"
    by (simp add: run_transition_def example_callbacks_at validate_hook_def b on_submit_def
        example_methods_def make_gl_entries_def)
  have d: "validate example_env short_doc
       = Raised (throw ''Insufficient stock for item {0}. Available: {1}, Required: {2}''
                  [Str ''ITEM-3'', Num (PyInt 3), Num (PyInt 5)]) (calculate_totals short_doc)"
    by (simp add: validate_examples)
  show ?thesis using a b c d by (simp add: throw_def)
qed

text \<open>
  Claim C7 (as amended). For every transition and every error, of whichever of the three
  classes, that a callback raises during it, the transition is aborted at that callback:
  the failure is the result of that one invocation, the rest of the state is as the
  callback left it, and the document's status is the one the transition started with.
  When the error is raised before the persist step, the hook points invoked end with
  the one that raised and no hook after the persist step runs. When it is raised by a
  callback of a hook after the persist step, that hook has run, as have those before
  it, and no later one runs. A transition that the status of the document does not
  permit is refused with the status unchanged and no hook run. And whenever a failure
  is reported, the status is unchanged and the hook points invoked are an initial part
  of the canonical order.
\<close>

theorem transition_abort:
  "(permitted t st \<and> before_hooks t = pre @ h # post
      \<and> fst (run_hooks st cbs pre s0) = Returned s
      \<and> callbacks_at cbs h = cs1 @ c # cs2
      \<and> run_callbacks st cs1 s = Returned s2 \<and> c st s2 = Raised e s1
    \<longrightarrow> request_transition t cbs (st, s0)
          = \<lparr>error = Some e, status_after = st, state_after = s1, invoked = pre @ [h]\<rparr>
        \<and> set (pre @ [h]) \<inter> set (post @ after_hooks t) = {})
   \<and> (permitted t st \<and> fst (run_hooks st cbs (before_hooks t) s0) = Returned s
      \<and> after_hooks t = pre @ h # post
      \<and> fst (run_hooks (terminal_status t st) cbs pre s) = Returned s3
      \<and> callbacks_at cbs h = cs1 @ c # cs2
      \<and> run_callbacks (terminal_status t st) cs1 s3 = Returned s2
      \<and> c (terminal_status t st) s2 = Raised e s1
    \<longrightarrow> request_transition t cbs (st, s0)
          = \<lparr>error = Some e, status_after = st, state_after = s1,
             invoked = before_hooks t @ pre @ [h]\<rparr>
        \<and> set (before_hooks t @ pre @ [h]) \<inter> set post = {})
   \<and> (\<not> permitted t st
    \<longrightarrow> error (request_transition t cbs (st, s0)) \<noteq> None
        \<and> status_after (request_transition t cbs (st, s0)) = st
        \<and> state_after (request_transition t cbs (st, s0)) = s0
        \<and> invoked (request_transition t cbs (st, s0)) = [])
   \<and> (error (request_transition t cbs (st, s0)) = Some e
    \<longrightarrow> status_after (request_transition t cbs (st, s0)) = st
        \<and> invoked (request_transition t cbs (st, s0))
            = take (length (invoked (request_transition t cbs (st, s0))))
                (before_hooks t @ after_hooks t)
        \<and> (set (invoked (request_transition t cbs (st, s0))) \<inter> set (after_hooks t) = {}
            \<or> last (invoked (request_transition t cbs (st, s0))) \<in> set (after_hooks t)))"
proof -
  have a: "permitted t st \<and> before_hooks t = pre @ h # post
      \<and> fst (run_hooks st cbs pre s0) = Returned s
      \<and> callbacks_at cbs h = cs1 @ c # cs2
      \<and> run_callbacks st cs1 s = Returned s2 \<and> c st s2 = Raised e s1
    \<longrightarrow> request_transition t cbs (st, s0)
          = \<lparr>error = Some e, status_after = st, state_after = s1, invoked = pre @ [h]\<rparr>
        \<and> set (pre @ [h]) \<inter> set (post @ after_hooks t) = {}"
  proof
    assume p: "permitted t st \<and> before_hooks t = pre @ h # post
      \<and> fst (run_hooks st cbs pre s0) = Returned s
      \<and> callbacks_at cbs h = cs1 @ c # cs2
      \<and> run_callbacks st cs1 s = Returned s2 \<and> c st s2 = Raised e s1"
    then have "run_transition t cbs (st, s0)
        = \<lparr>error = Some e, status_after = st, state_after = s1, invoked = pre @ [h]\<rparr>"
      using run_transition_raises_before [of t pre h post st cbs s0 s cs1 c cs2 s2 e s1]
      by blast
    then have "request_transition t cbs (st, s0)
        = \<lparr>error = Some e, status_after = st, state_after = s1, invoked = pre @ [h]\<rparr>"
      using p by (simp add: request_transition_def)
    moreover have "set (pre @ [h]) \<inter> set (post @ after_hooks t) = {}"
      using before_prefix_no_later [of t pre h post] p by blast
    ultimately show "request_transition t cbs (st, s0)
          = \<lparr>error = Some e, status_after = st, state_after = s1, invoked = pre @ [h]\<rparr>
        \<and> set (pre @ [h]) \<inter> set (post @ after_hooks t) = {}"
      by blast
  qed
  have b: "permitted t st \<and> fst (run_hooks st cbs (before_hooks t) s0) = Returned s
      \<and> after_hooks t = pre @ h # post
      \<and> fst (run_hooks (terminal_status t st) cbs pre s) = Returned s3
      \<and> callbacks_at cbs h = cs1 @ c # cs2
      \<and> run_callbacks (terminal_status t st) cs1 s3 = Returned s2
      \<and> c (terminal_status t st) s2 = Raised e s1
    \<longrightarrow> request_transition t cbs (st, s0)
          = \<lparr>error = Some e, status_after = st, state_after = s1,
             invoked = before_hooks t @ pre @ [h]\<rparr>
        \<and> set (before_hooks t @ pre @ [h]) \<inter> set post = {}"
  proof
    assume p: "permitted t st \<and> fst (run_hooks st cbs (before_hooks t) s0) = Returned s
      \<and> after_hooks t = pre @ h # post
      \<and> fst (run_hooks (terminal_status t st) cbs pre s) = Returned s3
      \<and> callbacks_at cbs h = cs1 @ c # cs2
      \<and> run_callbacks (terminal_status t st) cs1 s3 = Returned s2
      \<and> c (terminal_status t st) s2 = Raised e s1"
    then have "run_transition t cbs (st, s0)
        = \<lparr>error = Some e, status_after = st, state_after = s1,
           invoked = before_hooks t @ pre @ [h]\<rparr>"
      using run_transition_raises_after [of st cbs t s0 s pre h post s3 cs1 c cs2 s2 e s1]
      by blast
    then have "request_transition t cbs (st, s0)
        = \<lparr>error = Some e, status_after = st, state_after = s1,
           invoked = before_hooks t @ pre @ [h]\<rparr>"
      using p by (simp add: request_transition_def)
    moreover have "set (before_hooks t @ pre @ [h]) \<inter> set post = {}"
      using after_prefix_no_later [of t pre h post] p by blast
    ultimately show "request_transition t cbs (st, s0)
          = \<lparr>error = Some e, status_after = st, state_after = s1,
             invoked = before_hooks t @ pre @ [h]\<rparr>
        \<and> set (before_hooks t @ pre @ [h]) \<inter> set post = {}"
      by blast
  qed
  have c: "\<not> permitted t st
    \<longrightarrow> error (request_transition t cbs (st, s0)) \<noteq> None
        \<and> status_after (request_transition t cbs (st, s0)) = st
        \<and> state_after (request_transition t cbs (st, s0)) = s0
        \<and> invoked (request_transition t cbs (st, s0)) = []"
    by (simp add: request_transition_def)
  have d: "error (request_transition t cbs (st, s0)) = Some e
    \<longrightarrow> status_after (request_transition t cbs (st, s0)) = st
        \<and> invoked (request_transition t cbs (st, s0))
            = take (length (invoked (request_transition t cbs (st, s0))))
                (before_hooks t @ after_hooks t)
        \<and> (set (invoked (request_transition t cbs (st, s0))) \<inter> set (after_hooks t) = {}
            \<or> last (invoked (request_transition t cbs (st, s0))) \<in> set (after_hooks t))"
  proof (cases "permitted t st")
    case False
    then show ?thesis by (simp add: request_transition_def)
  next
    case True
    then have eq: "request_transition t cbs (st, s0) = run_transition t cbs (st, s0)"
      by (simp add: request_transition_def)
    show ?thesis
    proof
      assume "error (request_transition t cbs (st, s0)) = Some e"
      then have err: "error (run_transition t cbs (st, s0)) = Some e" using eq by simp
      from run_transition_reported [OF err]
      obtain k where st: "status_after (run_transition t cbs (st, s0)) = st"
        and k: "k < length (before_hooks t @ after_hooks t)"
          "invoked (run_transition t cbs (st, s0)) = take (Suc k) (before_hooks t @ after_hooks t)"
        and l: "set (invoked (run_transition t cbs (st, s0))) \<inter> set (after_hooks t) = {}
            \<or> last (invoked (run_transition t cbs (st, s0))) \<in> set (after_hooks t)"
        by blast
      have "invoked (run_transition t cbs (st, s0))
          = take (length (invoked (run_transition t cbs (st, s0))))
              (before_hooks t @ after_hooks t)"
        using k(2) by (rule take_length_self)
      then show "status_after (request_transition t cbs (st, s0)) = st
        \<and> invoked (request_transition t cbs (st, s0))
            = take (length (invoked (request_transition t cbs (st, s0))))
                (before_hooks t @ after_hooks t)
        \<and> (set (invoked (request_transition t cbs (st, s0))) \<inter> set (after_hooks t) = {}
            \<or> last (invoked (request_transition t cbs (st, s0))) \<in> set (after_hooks t))"
        using st l eq by simp
    qed
  qed
  show ?thesis using a b c d by blast
qed

lemma on_submit_raising:
  "on_submit raising_methods st w
     = Raised (Error ExternalDependency ''Related document could not be created'' [])
         (w\<lparr>ledger := ledger w @ [(gl_entries (doc w), False)]\<rparr>)"
  by (simp add: on_submit_def raising_methods_def make_gl_entries_def)

lemma before_submit_example:
  "run_hooks Draft raising_callbacks (before_hooks Submit) \<lparr>doc = example_doc, ledger = []\<rparr>
     = (Returned \<lparr>doc = calculate_totals example_doc, ledger = []\<rparr>,
        [Before_Submit, Validate_For_Submit])"
  by (simp add: raising_callbacks_at validate_hook_def validate_examples)

lemma submit_raising_run:
  "run_transition Submit raising_callbacks (Draft, \<lparr>doc = example_doc, ledger = []\<rparr>)
     = \<lparr>error = Some (Error ExternalDependency ''Related document could not be created'' []),
        status_after = Draft,
        state_after = \<lparr>doc = calculate_totals example_doc,
                       ledger = [(gl_entries (calculate_totals example_doc), False)]\<rparr>,
        invoked = [Before_Submit, Validate_For_Submit, On_Submit]\<rparr>"
proof -
  let ?w = "\<lparr>doc = example_doc, ledger = []\<rparr>"
  let ?w1 = "\<lparr>doc = calculate_totals example_doc, ledger = []\<rparr>"
  have b2: "fst (run_hooks Draft raising_callbacks (before_hooks Submit) ?w) = Returned ?w1"
    by (simp only: before_submit_example fst_conv)
  have b3: "after_hooks Submit = [] @ On_Submit # []" by simp
  have b4: "fst (run_hooks (terminal_status Submit Draft) raising_callbacks [] ?w1) = Returned ?w1"
    by simp
  have b5: "callbacks_at raising_callbacks On_Submit = [] @ on_submit raising_methods # []"
    by (simp add: raising_callbacks_at)
  have b6: "run_callbacks (terminal_status Submit Draft) [] ?w1 = Returned ?w1" by simp
  have b7: "on_submit raising_methods (terminal_status Submit Draft) ?w1
      = Raised (Error ExternalDependency ''Related document could not be created'' [])
          \<lparr>doc = calculate_totals example_doc,
           ledger = [(gl_entries (calculate_totals example_doc), False)]\<rparr>"
    by (simp add: on_submit_raising)
  show ?thesis
    using run_transition_raises_after [OF b2 b3 b4 b5 b6 b7] by simp
qed

theorem transition_abort_witness:
  "request_transition Save example_callbacks (Draft, \<lparr>doc = zero_qty_doc, ledger = []\<rparr>)
     = \<lparr>error = Some (throw ''Quantity must be greater than 0 for item {0}'' [Str ''ITEM-0'']),
        status_after = Draft, state_after = \<lparr>doc = zero_qty_doc, ledger = []\<rparr>,
        invoked = [Validate]\<rparr>
   \<and> set [Validate] \<inter> set ([Before_Save] @ after_hooks Save) = {}
   \<and> request_transition Submit raising_callbacks (Draft, \<lparr>doc = example_doc, ledger = []\<rparr>)
     = \<lparr>error = Some (Error ExternalDependency ''Related document could not be created'' []),
        status_after = Draft,
        state_after = \<lparr>doc = calculate_totals example_doc,
                       ledger = [(gl_entries (calculate_totals example_doc), False)]\<rparr>,
        invoked = [Before_Submit, Validate_For_Submit, On_Submit]\<rparr>
   \<and> \<not> permitted Submit Cancelled
   \<and> error (request_transition Submit example_callbacks
        (Cancelled, \<lparr>doc = example_doc, ledger = []\<rparr>)) \<noteq> None
   \<and> status_after (request_transition Submit example_callbacks
        (Cancelled, \<lparr>doc = example_doc, ledger = []\<rparr>)) = Cancelled
   \<and> invoked (request_transition Submit example_callbacks
        (Cancelled, \<lparr>doc = example_doc, ledger = []\<rparr>)) = []"
proof -
  let ?z = "\<lparr>doc = zero_qty_doc, ledger = []\<rparr>"
  let ?w = "\<lparr>doc = example_doc, ledger = []\<rparr>"
  let ?w1 = "\<lparr>doc = calculate_totals example_doc, ledger = []\<rparr>"
  let ?e = "throw ''Quantity must be greater than 0 for item {0}'' [Str ''ITEM-0'']"
  let ?x = "Error ExternalDependency ''Related document could not be created'' []"
  have a1: "permitted Save Draft" by simp
  have a2: "before_hooks Save = [] @ Validate # [Before_Save]" by simp
  have a3: "fst (run_hooks Draft example_callbacks [] ?z) = Returned ?z" by simp
  have a4: "callbacks_at example_callbacks Validate = [] @ validate_hook example_env # []"
    by (simp add: example_callbacks_at)
  have a5: "run_callbacks Draft [] ?z = Returned ?z" by simp
  have a6: "validate_hook example_env Draft ?z = Raised ?e ?z"
    by (simp add: validate_hook_def validate_examples)
  have A: "request_transition Save example_callbacks (Draft, ?z)
          = \<lparr>error = Some ?e, status_after = Draft, state_after = ?z, invoked = [] @ [Validate]\<rparr>
        \<and> set ([] @ [Validate]) \<inter> set ([Before_Save] @ after_hooks Save) = {}"
    using transition_abort [of Save Draft "[]" Validate "[Before_Save]" example_callbacks ?z ?z
        "[]" "validate_hook example_env" "[]" ?z ?e ?z] a1 a2 a3 a4 a5 a6
    by blast
  have b1: "permitted Submit Draft" by simp
  have b2: "fst (run_hooks Draft raising_callbacks (before_hooks Submit) ?w) = Returned ?w1"
    by (simp only: before_submit_example fst_conv)
  have b3: "after_hooks Submit = [] @ On_Submit # []" by simp
  have b4: "fst (run_hooks (terminal_status Submit Draft) raising_callbacks [] ?w1) = Returned ?w1"
    by simp
  have b5: "callbacks_at raising_callbacks On_Submit = [] @ on_submit raising_methods # []"
    by (simp add: raising_callbacks_at)
  have b6: "run_callbacks (terminal_status Submit Draft) [] ?w1 = Returned ?w1" by simp
  have b7: "on_submit raising_methods (terminal_status Submit Draft) ?w1
      = Raised ?x \<lparr>doc = calculate_totals example_doc,
                    ledger = [(gl_entries (calculate_totals example_doc), False)]\<rparr>"
    by (simp add: on_submit_raising)
  have B: "request_transition Submit raising_callbacks (Draft, ?w)
          = \<lparr>error = Some ?x, status_after = Draft,
             state_after = \<lparr>doc = calculate_totals example_doc,
                            ledger = [(gl_entries (calculate_totals example_doc), False)]\<rparr>,
             invoked = before_hooks Submit @ [] @ [On_Submit]\<rparr>"
    using transition_abort [of Submit Draft "[]" On_Submit "[]" raising_callbacks ?w ?w1
        "[]" "on_submit raising_methods" "[]" ?w1 ?x
        "\<lparr>doc = calculate_totals example_doc,
          ledger = [(gl_entries (calculate_totals example_doc), False)]\<rparr>" ?w1]
      b1 b2 b3 b4 b5 b6 b7
    by blast
  have c1: "\<not> permitted Submit Cancelled" by simp
  have C: "error (request_transition Submit example_callbacks (Cancelled, ?w)) \<noteq> None
      \<and> status_after (request_transition Submit example_callbacks (Cancelled, ?w)) = Cancelled
      \<and> invoked (request_transition Submit example_callbacks (Cancelled, ?w)) = []"
    using transition_abort [of Submit Cancelled _ _ _ example_callbacks ?w] c1
    by blast
  show ?thesis using A B c1 C by simp
qed

text \<open>
  The claim as stated fails for an error raised after the persist step. In
  \<^verbatim>\<open>on_submit\<close> of the template \<^verbatim>\<open>make_gl_entries\<close> comes first; when a method called
  after it raises, here \<^verbatim>\<open>create_related_documents\<close> with an external-dependency error,
  the hook \<open>on_submit\<close>, which is after the persist step of submit, has run and the
  ledger is posted.
\<close>

theorem transition_abort_counterexample:
  "request_transition Submit raising_callbacks (Draft, \<lparr>doc = example_doc, ledger = []\<rparr>)
     = \<lparr>error = Some (Error ExternalDependency ''Related document could not be created'' []),
        status_after = Draft,
        state_after = \<lparr>doc = calculate_totals example_doc,
                       ledger = [(gl_entries (calculate_totals example_doc), False)]\<rparr>,
        invoked = [Before_Submit, Validate_For_Submit, On_Submit]\<rparr>
   \<and> class_of (Error ExternalDependency ''Related document could not be created'' [])
       = ExternalDependency
   \<and> On_Submit \<in> set (after_hooks Submit)"
  by (simp add: request_transition_def submit_raising_run)

text \<open>
  Claim C8. \<open>get_customer_info\<close> signals an error, a validation error carrying the
  message "Customer {0} not found" with the identifier, exactly when the table of the
  persistence collaborator has no Customer of that identifier; otherwise it returns the
  dictionary of name, customer_name, customer_type, credit_limit, territory and
  customer_group of that customer, each a string or a number.
\<close>

theorem get_customer_info_spec:
  "((\<exists>e. get_customer_info db c = Inl e) \<longleftrightarrow> db c = None)
   \<and> (db c = None \<longrightarrow>
        get_customer_info db c = Inl (throw ''Customer {0} not found'' [Str c]))
   \<and> (\<forall>cd. db c = Some cd \<longrightarrow>
        get_customer_info db c
          = Inr [(''name'', JString (name cd)),
                 (''customer_name'', JString (customer_name cd)),
                 (''customer_type'', JString (customer_type cd)),
                 (''credit_limit'', JNumber (credit_limit cd)),
                 (''territory'', JString (territory cd)),
                 (''customer_group'', JString (customer_group cd))])"
  by (cases "db c") (simp_all add: get_customer_info_def db_exists_def get_doc_def)

theorem get_customer_info_spec_witness:
  "get_customer_info example_db ''CUST-2''
     = Inl (throw ''Customer {0} not found'' [Str ''CUST-2''])
   \<and> get_customer_info example_db ''CUST-1''
     = Inr [(''name'', JString ''CUST-1''),
            (''customer_name'', JString ''Acme''),
            (''customer_type'', JString ''Company''),
            (''credit_limit'', JNumber (PyInt 1000)),
            (''territory'', JString ''All Territories''),
            (''customer_group'', JString ''Commercial'')]"
  using get_customer_info_spec [of example_db "''CUST-2''"]
    get_customer_info_spec [of example_db "''CUST-1''"]
  by (simp add: example_db_def example_customer_def)

text \<open>
  Claim C9 (as amended). After \<open>calculate_totals\<close>, the entries that \<open>make_gl_entries\<close>
  builds are one debit entry, one credit entry and one entry for every tax row, in this
  order: the debits are \<open>grand_total\<close> on the first entry and 0 on all others, the
  credits are 0 on the first entry, \<open>total_amount\<close> on the second and \<open>tax_amount\<close> of the
  tax row on each of the others; and \<open>grand_total\<close> is the float sum of \<open>total_amount\<close>
  and of the float sum, accumulated from 0 in row order, of the tax amounts. The debit
  is therefore the credits added in this one order, each addition rounded.
\<close>

theorem gl_entries_balanced:
  "map debit (gl_entries (calculate_totals d))
     = PyFloat (grand_total (calculate_totals d)) # PyInt 0
         # map (\<lambda>t. PyInt 0) (taxes (calculate_totals d))
   \<and> map credit (gl_entries (calculate_totals d))
     = PyInt 0 # PyFloat (total_amount (calculate_totals d))
         # map tax_amount (taxes (calculate_totals d))
   \<and> grand_total (calculate_totals d)
     = fadd (total_amount (calculate_totals d))
         (foldl fadd (Finite 0)
            (map (\<lambda>t. flt (tax_amount t)) (taxes (calculate_totals d))))"
proof -
  let ?d = "calculate_totals d"
  have deb: "map debit (gl_entries ?d)
      = PyFloat (grand_total ?d) # PyInt 0 # map (\<lambda>t. PyInt 0) (taxes ?d)"
    by (simp add: gl_entries_def get_gl_dict_def tax_gl_entry_def comp_def)
  have cre: "map credit (gl_entries ?d)
      = PyInt 0 # PyFloat (total_amount ?d) # map tax_amount (taxes ?d)"
    by (simp add: gl_entries_def get_gl_dict_def tax_gl_entry_def comp_def)
  have gt: "grand_total ?d
      = fadd (total_amount ?d)
          (foldl fadd (Finite 0) (map (\<lambda>t. flt (tax_amount t)) (taxes ?d)))"
    using grand_total_calculate_totals [of d] total_tax_calculate_totals [of d]
    by simp
  show ?thesis using deb cre gt by blast
qed

theorem gl_entries_balanced_witness:
  "map debit (gl_entries (calculate_totals example_doc))
     = [PyFloat (Finite 275), PyInt 0, PyInt 0]
   \<and> map credit (gl_entries (calculate_totals example_doc))
     = [PyInt 0, PyFloat (Finite 250), PyFloat (Finite 25)]"
proof -
  have t: "taxes (calculate_totals example_doc)
      = [example_tax\<lparr>tax_amount := PyFloat (Finite 25)\<rparr>]"
    and g: "grand_total (calculate_totals example_doc) = Finite 275"
    and a: "total_amount (calculate_totals example_doc) = Finite 250"
    by (simp_all add: calculate_totals_example_doc)
  show ?thesis
    using gl_entries_balanced [of example_doc] by (simp add: t g a)
qed

text \<open>
  The claim as stated fails on the code's floats. With one item of quantity 1 at the
  rate 9.99 and two "On Net Total" tax rows of 7 and 3 per cent, the debit is the float
  10.989, and the credits are 9.99, 0.6993 and 0.2997 as floats: their exact sum is not
  the debit, and added from left to right as floats they give 10.988999999999999. The
  document passes \<open>validate\<close>.
\<close>

theorem gl_entries_counterexample:
  "validate example_env price_doc = Returned (calculate_totals price_doc)
   \<and> map debit (gl_entries (calculate_totals price_doc))
     = [PyFloat (Finite (3093128519073399 / 2 ^ 48)), PyInt 0, PyInt 0, PyInt 0]
   \<and> map credit (gl_entries (calculate_totals price_doc))
     = [PyInt 0, PyFloat (Finite (5623870034678907 / 2 ^ 49)),
        PyFloat (Finite (787341804855047 / 2 ^ 50)),
        PyFloat (Finite (2699457616645875 / 2 ^ 53))]
   \<and> (3093128519073399 / 2 ^ 48 :: rat)
       \<noteq> 5623870034678907 / 2 ^ 49 + 787341804855047 / 2 ^ 50 + 2699457616645875 / 2 ^ 53
   \<and> fadd (fadd (fadd (Finite 0) (Finite (5623870034678907 / 2 ^ 49)))
                 (Finite (787341804855047 / 2 ^ 50)))
           (Finite (2699457616645875 / 2 ^ 53))
       = Finite (6186257038146797 / 2 ^ 49)
   \<and> (6186257038146797 / 2 ^ 49 :: rat) \<noteq> 3093128519073399 / 2 ^ 48"
proof -
  have d: "validate_required_fields price_doc = Inr ()"
    "validate_dates example_env price_doc = Inr ()"
    "validate_quantities price_doc = Inr ()"
    "validate_against_stock example_env price_doc = Inr ()"
    by code_simp+
  have v: "validate example_env price_doc = Returned (calculate_totals price_doc)"
    using d by (rule validate_returns)
  have deb: "map debit (gl_entries (calculate_totals price_doc))
     = [PyFloat (Finite (3093128519073399 / 2 ^ 48)), PyInt 0, PyInt 0, PyInt 0]"
    by code_simp
  have cre: "map credit (gl_entries (calculate_totals price_doc))
     = [PyInt 0, PyFloat (Finite (5623870034678907 / 2 ^ 49)),
        PyFloat (Finite (787341804855047 / 2 ^ 50)),
        PyFloat (Finite (2699457616645875 / 2 ^ 53))]"
    by code_simp
  have ex: "(3093128519073399 / 2 ^ 48 :: rat)
       \<noteq> 5623870034678907 / 2 ^ 49 + 787341804855047 / 2 ^ 50 + 2699457616645875 / 2 ^ 53"
    by simp
  have fl: "fadd (fadd (fadd (Finite 0) (Finite (5623870034678907 / 2 ^ 49)))
                 (Finite (787341804855047 / 2 ^ 50)))
           (Finite (2699457616645875 / 2 ^ 53))
       = Finite (6186257038146797 / 2 ^ 49)"
    by code_simp
  have ne: "(6186257038146797 / 2 ^ 49 :: rat) \<noteq> 3093128519073399 / 2 ^ 48"
    by simp
  show ?thesis using v deb cre ex fl ne by blast
qed




end
